theory Spec2Isabelle
  imports Complex_Main "HOL-Library.Sublist"
begin

section \<open>Similarity gate\<close>

text \<open>
  The repository holds three variants of one pipeline: the first script (with e-mail
  delivery), the \<open>agent\<close> module behind the Streamlit page (both with text output),
  and the notebook variant with JSON output. The embedding vectors, \<open>numpy\<close> arrays of floats,
  are modelled as lists of reals: rounding is outside the model, the algebra is not.

  \<open>np.dot\<close> on two one-dimensional arrays is the sum of the products of the components
  (the embedding model gives every text a vector of the same length), and
  \<open>np.linalg.norm\<close> is the square root of the sum of the squares.
\<close>

definition np_dot :: "real list \<Rightarrow> real list \<Rightarrow> real" where
  "np_dot vec1 vec2 = sum_list (map (\<lambda>(x, y). x * y) (zip vec1 vec2))"

definition np_linalg_norm :: "real list \<Rightarrow> real" where
  "np_linalg_norm vec = sqrt (sum_list (map (\<lambda>x. x * x) vec))"

text \<open>
  A floating-point division by zero does not raise in \<open>numpy\<close>: it yields \<open>nan\<close> when
  the numerator is zero as well, which is the only case that arises here (a vector of
  norm zero is the zero vector, so its dot product with anything is zero, lemma
  \<open>np_dot_zero_norm\<close> below). The result \<open>None\<close> stands for \<open>nan\<close>; every comparison
  with \<open>nan\<close> is false.

  The first script computes \<open>np.dot(vec1, vec2)/(np.linalg.norm(vec1))*(np.linalg.norm(vec2))\<close>:
  the quotient by the first norm, times the second norm.
\<close>

definition cosine_similarity_v1 :: "real list \<Rightarrow> real list \<Rightarrow> real option" where
  "cosine_similarity_v1 vec1 vec2 =
     (if np_linalg_norm vec1 = 0 then None
      else Some (np_dot vec1 vec2 / np_linalg_norm vec1 * np_linalg_norm vec2))"

text \<open>
  The \<open>agent\<close> module and the notebook compute
  \<open>np.dot(vec1, vec2) / (np.linalg.norm(vec1) * np.linalg.norm(vec2))\<close>.
\<close>

definition cosine_similarity :: "real list \<Rightarrow> real list \<Rightarrow> real option" where
  "cosine_similarity vec1 vec2 =
     (if np_linalg_norm vec1 * np_linalg_norm vec2 = 0 then None
      else Some (np_dot vec1 vec2 / (np_linalg_norm vec1 * np_linalg_norm vec2)))"

section \<open>Python strings\<close>

text \<open>
  A Python string is modelled as a list of characters with code points below 256.
  \<open>str.isspace\<close> and the class \<open>\s\<close> of \<open>re\<close> agree on them: the characters 9 to 13,
  28 to 32, 133 and 160.
\<close>

definition isspace :: "char \<Rightarrow> bool" where
  "isspace c =
     (let n = (of_char c :: nat)
      in (9 \<le> n \<and> n \<le> 13) \<or> (28 \<le> n \<and> n \<le> 32) \<or> n = 133 \<or> n = 160)"

definition strip :: "string \<Rightarrow> string" where
  "strip s = rev (dropWhile isspace (rev (dropWhile isspace s)))"

text \<open>\<open>needle in haystack\<close>.\<close>

fun str_contains :: "string \<Rightarrow> string \<Rightarrow> bool" where
  "str_contains needle [] = (needle = [])"
| "str_contains needle (c # cs) = (prefix needle (c # cs) \<or> str_contains needle cs)"

text \<open>\<open>sep.join(parts)\<close>.\<close>

fun join :: "string \<Rightarrow> string list \<Rightarrow> string" where
  "join sep [] = []"
| "join sep [p] = p"
| "join sep (p # q # ps) = p @ sep @ join sep (q # ps)"

text \<open>
  \<open>re.split(delimiter, text)\<close> for a delimiter without regular-expression operators, as
  the one of the scripts: the text is cut at the leftmost occurrence of the delimiter and
  the search goes on behind it. \<open>split_once\<close> finds that occurrence and gives the text
  before and after it.
\<close>

fun split_once :: "string \<Rightarrow> string \<Rightarrow> (string \<times> string) option" where
  "split_once d [] = (if d = [] then Some ([], []) else None)"
| "split_once d (c # cs) =
     (if prefix d (c # cs) then Some ([], drop (length d) (c # cs))
      else (case split_once d cs of
              None \<Rightarrow> None
            | Some (before, after) \<Rightarrow> Some (c # before, after)))"

lemma split_once_length:
  "split_once d s = Some (before, after) \<Longrightarrow> length s = length before + length d + length after"
proof (induction s arbitrary: before)
  case Nil
  then show ?case by (simp split: if_splits)
next
  case (Cons c cs)
  show ?case
  proof (cases "prefix d (c # cs)")
    case True
    then have "length d \<le> length (c # cs)" by (rule prefix_length_le)
    with True Cons.prems show ?thesis by auto
  next
    case False
    with Cons.prems obtain b where "split_once d cs = Some (b, after)" and "before = c # b"
      by (auto split: option.splits)
    with Cons.IH show ?thesis by simp
  qed
qed

function re_split :: "string \<Rightarrow> string \<Rightarrow> string list" where
  "re_split d s =
     (if d = [] then [s]
      else (case split_once d s of
              None \<Rightarrow> [s]
            | Some (before, after) \<Rightarrow> before # re_split d after))"
  by pat_completeness auto
termination
proof (relation "measure (\<lambda>(d, s). length s)")
  show "wf (measure (\<lambda>(d, s). length s))" by simp
next
  fix d s :: string and x2 :: "string \<times> string" and before after
  assume "d \<noteq> []" and "split_once d s = Some x2" and "(before, after) = x2"
  then have "length s = length before + length d + length after"
    by (simp add: split_once_length)
  with \<open>d \<noteq> []\<close> show "((d, after), (d, s)) \<in> measure (\<lambda>(d, s). length s)"
    by (cases d) simp_all
qed

section \<open>Parsing a generated test case\<close>

type_synonym fields = "(string \<times> string) list"

definition newline :: char where
  "newline = CHR 0x0A"

definition field_names :: "string list" where
  "field_names =
     [''Test_Scenario'', ''Test_Steps'', ''Pre_Requisite'', ''Expected_Result'', ''Pass_Fail_Criteria'']"

text \<open>
  The pattern of \<open>parse_test_case\<close> is
  \<^verbatim>\<open>field + r":\s*(.*?)\s*(?=(Test_Steps:|Pre_Requisite:|Expected_Result:|Pass_Fail_Criteria:|$))"\<close>
  searched with \<open>re.DOTALL\<close>, so that \<open>.\<close> matches every character.

  \<open>lookahead\<close> is the assertion \<open>(?=(...|$))\<close> at the start of the rest of the text:
  one of the four labels follows, or the text ends there (\<open>$\<close> also matches before a
  last newline).
\<close>

definition lookahead_labels :: "string list" where
  "lookahead_labels =
     [''Test_Steps:'', ''Pre_Requisite:'', ''Expected_Result:'', ''Pass_Fail_Criteria:'']"

definition lookahead :: "string \<Rightarrow> bool" where
  "lookahead s = (list_ex (\<lambda>label. prefix label s) lookahead_labels \<or> s = [] \<or> s = [newline])"

text \<open>
  \<open>tail_matches\<close> is \<open>\s*(?=(...))\<close> at the start of the rest: \<open>\s*\<close> takes some
  number of the leading whitespace characters, the longest first, and the assertion must
  hold behind them.
\<close>

definition tail_matches :: "string \<Rightarrow> bool" where
  "tail_matches s =
     list_ex (\<lambda>k. lookahead (drop k s)) (rev [0 ..< Suc (length (takeWhile isspace s))])"

text \<open>
  \<open>lazy_group\<close> is the group \<open>(.*?)\<close> followed by the tail: the lazy star takes no
  character if the tail matches at once, and one character more each time it does not.
  At the end of the text the tail matches, so the group always exists.
\<close>

fun lazy_group :: "string \<Rightarrow> string" where
  "lazy_group [] = []"
| "lazy_group (c # cs) = (if tail_matches (c # cs) then [] else c # lazy_group cs)"

text \<open>
  \<open>match_at\<close> is the whole pattern at the start of \<open>s\<close>: the label and the colon, the
  greedy \<open>\s*\<close> (all the whitespace that follows: the engine gives none of it back,
  since the rest of the pattern always matches behind it), then the group.
  \<open>re_search\<close> tries the positions of the text from left to right and gives group 1 of
  the first match.
\<close>

definition match_at :: "string \<Rightarrow> string \<Rightarrow> string option" where
  "match_at field s =
     (if prefix (field @ '':'') s
      then Some (lazy_group (dropWhile isspace (drop (length field + 1) s)))
      else None)"

fun re_search :: "string \<Rightarrow> string \<Rightarrow> string option" where
  "re_search field [] = match_at field []"
| "re_search field (c # cs) =
     (case match_at field (c # cs) of
        Some group1 \<Rightarrow> Some group1
      | None \<Rightarrow> re_search field cs)"

definition parse_test_case :: "string \<Rightarrow> fields" where
  "parse_test_case tc_text =
     map (\<lambda>field. (field, case re_search field tc_text of
                            Some group1 \<Rightarrow> strip group1
                          | None \<Rightarrow> []))
       field_names"

section \<open>Exceptions, dictionaries and the test-case table\<close>

text \<open>
  An exception is a value: \<open>KeyError key\<close> for a missing dictionary key,
  \<open>UnboundLocalError name\<close> for a local variable read before its assignment, and
  \<open>Failure message\<close> for whatever an external service raises, with the text \<open>str(e)\<close>
  of the exception. A Python expression that may raise has a result of type
  \<open>error + 'a\<close>.
\<close>

datatype error = KeyError string | UnboundLocalError string | Failure string

text \<open>
  \<open>str(e)\<close>: a \<open>KeyError\<close> prints the key in single quotes. The text of an
  \<open>UnboundLocalError\<close> is the one of Python 3.11; no handler ever prints it.
\<close>

fun str_of_error :: "error \<Rightarrow> string" where
  "str_of_error (KeyError key) = CHR 0x27 # key @ [CHR 0x27]"
| "str_of_error (UnboundLocalError name) =
     ''cannot access local variable '' @ CHR 0x27 # name @ CHR 0x27 #
     '' where it is not associated with a value''"
| "str_of_error (Failure message) = message"

definition res_bind :: "error + 'a \<Rightarrow> ('a \<Rightarrow> error + 'b) \<Rightarrow> error + 'b" where
  "res_bind r f = (case r of Inl e \<Rightarrow> Inl e | Inr x \<Rightarrow> f x)"

fun res_map :: "('a \<Rightarrow> error + 'b) \<Rightarrow> 'a list \<Rightarrow> error + 'b list" where
  "res_map f [] = Inr []"
| "res_map f (x # xs) = res_bind (f x) (\<lambda>y. res_bind (res_map f xs) (\<lambda>ys. Inr (y # ys)))"

text \<open>
  A cell of the table is a text or the missing value \<open>nan\<close>: \<open>pd.read_csv\<close> reads a
  blank cell of the file as \<open>nan\<close>, and the program writes blank cells itself, for
  generated cases with an empty field. \<open>str_of_cell\<close> is \<open>str\<close> (and the formatting in an
  f-string), \<open>cell_eq\<close> is the comparison \<open>==\<close> of a cell with a value: \<open>nan\<close> equals
  nothing, itself included. Columns that \<open>pandas\<close> reads as numbers are outside the
  model.
\<close>

datatype cell = Str string | NaN

fun str_of_cell :: "cell \<Rightarrow> string" where
  "str_of_cell (Str s) = s"
| "str_of_cell NaN = ''nan''"

fun cell_eq :: "cell \<Rightarrow> cell \<Rightarrow> bool" where
  "cell_eq (Str a) (Str b) = (a = b)"
| "cell_eq (Str a) NaN = False"
| "cell_eq NaN b = False"

text \<open>
  A test case is a dictionary from field names to values, in the order of insertion;
  the values are what the cells of the table are. \<open>getitem d key\<close> is \<open>d[key]\<close>.
\<close>

type_synonym dict = "(string \<times> cell) list"

definition getitem :: "(string \<times> 'v) list \<Rightarrow> string \<Rightarrow> error + 'v" where
  "getitem d key = (case map_of d key of None \<Rightarrow> Inl (KeyError key) | Some v \<Rightarrow> Inr v)"

text \<open>
  The table \<open>test_cases_df\<close> is a data frame with six columns; a row of it is a record.
\<close>

record row =
  Module :: cell
  Test_Scenario :: cell
  Test_Steps :: cell
  Pre_Requisite :: cell
  Pass_Fail_Criteria :: cell
  Expected_Result :: cell

text \<open>
  \<open>get_csv_test_cases\<close>: the rows whose module equals the given one and for which
  \<open>str(row.get(field, "")).strip()\<close> is not empty for each of the five required fields,
  each as a dictionary with the five fields and then the module. A missing value passes
  the test, since its \<open>str\<close> is \<open>nan\<close>. On an empty table the result is empty.
\<close>

definition required_fields_present :: "row \<Rightarrow> bool" where
  "required_fields_present r =
     (strip (str_of_cell (Test_Scenario r)) \<noteq> [] \<and> strip (str_of_cell (Test_Steps r)) \<noteq> [] \<and>
      strip (str_of_cell (Pre_Requisite r)) \<noteq> [] \<and>
      strip (str_of_cell (Pass_Fail_Criteria r)) \<noteq> [] \<and>
      strip (str_of_cell (Expected_Result r)) \<noteq> [])"

definition tc_dict :: "row \<Rightarrow> dict" where
  "tc_dict r =
     [(''Test_Scenario'', Test_Scenario r), (''Test_Steps'', Test_Steps r),
      (''Pre_Requisite'', Pre_Requisite r), (''Pass_Fail_Criteria'', Pass_Fail_Criteria r),
      (''Expected_Result'', Expected_Result r), (''Module'', Module r)]"

definition get_csv_test_cases :: "cell \<Rightarrow> row list \<Rightarrow> dict list" where
  "get_csv_test_cases module_name df =
     map tc_dict
       (filter required_fields_present (filter (\<lambda>r. cell_eq (Module r) module_name) df))"

text \<open>
  The loop of \<open>save_new_test_cases\<close>: each new case is compared, field by field in the
  order of the source, with the rows of the table as it was when the function was
  entered, and kept when no row equals it. A missing key raises at the first case and
  the first field that lacks it. The kept dictionaries become rows of the new frame.
\<close>

fun rows_to_add :: "row list \<Rightarrow> dict list \<Rightarrow> error + row list" where
  "rows_to_add df [] = Inr []"
| "rows_to_add df (tc # new_cases) =
     res_bind (getitem tc ''Module'') (\<lambda>m.
     res_bind (getitem tc ''Test_Scenario'') (\<lambda>scenario.
     res_bind (getitem tc ''Test_Steps'') (\<lambda>steps.
     res_bind (getitem tc ''Pre_Requisite'') (\<lambda>pre.
     res_bind (getitem tc ''Pass_Fail_Criteria'') (\<lambda>criteria.
     res_bind (getitem tc ''Expected_Result'') (\<lambda>expected.
       let duplicate =
             filter (\<lambda>r. cell_eq (Module r) m \<and> cell_eq (Test_Scenario r) scenario \<and>
                         cell_eq (Test_Steps r) steps \<and> cell_eq (Pre_Requisite r) pre \<and>
                         cell_eq (Pass_Fail_Criteria r) criteria \<and>
                         cell_eq (Expected_Result r) expected) df
       in res_bind (rows_to_add df new_cases) (\<lambda>rows.
            Inr (if duplicate = []
                 then \<lparr>Module = m, Test_Scenario = scenario, Test_Steps = steps,
                       Pre_Requisite = pre, Pass_Fail_Criteria = criteria,
                       Expected_Result = expected\<rparr> # rows
                 else rows))))))))"

section \<open>State, external services and actions\<close>

text \<open>
  The external services are parameters of the model. A prompt is the template that is
  filled and its arguments; the two output formats have different templates for the
  test cases. The language model may answer the same prompt differently each time, so it
  takes the calls made so far as well.
\<close>

datatype output_format = Text | Json

datatype prompt =
    Explanation_Prompt string string
  | Additional_Prompt output_format int string string string string
  | Full_Prompt output_format string string string
  | Alt_Prompt string
  | Test_Case_Prompt output_format string string

datatype event = Retrieve string | Embed string | Llm prompt

record document =
  page_content :: string
  metadata_solution :: string
  metadata_module :: cell

record services =
  retriever :: "string \<Rightarrow> error + document list"
  embed_query :: "string \<Rightarrow> error + real list"
  llm :: "event list \<Rightarrow> prompt \<Rightarrow> error + string"
  json_loads :: "string \<Rightarrow> error + dict list"
  json_dumps :: "dict list \<Rightarrow> string"

text \<open>
  The state is the global table, the file \<open>./content/test_cases.csv\<close> that mirrors it,
  and the record of the calls to the external services, the oldest first.
\<close>

record state =
  test_cases_df :: "row list"
  test_cases_csv :: "row list"
  calls :: "event list"

type_synonym 'a action = "state \<Rightarrow> (error + 'a) \<times> state"

definition act_return :: "'a \<Rightarrow> 'a action" where
  "act_return x = (\<lambda>s. (Inr x, s))"

definition act_lift :: "error + 'a \<Rightarrow> 'a action" where
  "act_lift r = (\<lambda>s. (r, s))"

definition act_bind :: "'a action \<Rightarrow> ('a \<Rightarrow> 'b action) \<Rightarrow> 'b action" where
  "act_bind m f = (\<lambda>s. case m s of (Inl e, s') \<Rightarrow> (Inl e, s') | (Inr x, s') \<Rightarrow> f x s')"

text \<open>\<open>try: m except Exception as e: handler(e)\<close>.\<close>

definition act_catch :: "'a action \<Rightarrow> (error \<Rightarrow> 'a action) \<Rightarrow> 'a action" where
  "act_catch m handler = (\<lambda>s. case m s of (Inl e, s') \<Rightarrow> handler e s' | (Inr x, s') \<Rightarrow> (Inr x, s'))"

definition retriever_invoke :: "services \<Rightarrow> string \<Rightarrow> document list action" where
  "retriever_invoke env query = (\<lambda>s. (retriever env query, s\<lparr>calls := calls s @ [Retrieve query]\<rparr>))"

definition get_embedding :: "services \<Rightarrow> string \<Rightarrow> real list action" where
  "get_embedding env text = (\<lambda>s. (embed_query env text, s\<lparr>calls := calls s @ [Embed text]\<rparr>))"

definition llm_invoke :: "services \<Rightarrow> prompt \<Rightarrow> string action" where
  "llm_invoke env p = (\<lambda>s. (llm env (calls s) p, s\<lparr>calls := calls s @ [Llm p]\<rparr>))"

text \<open>
  \<open>save_new_test_cases\<close>: when the loop kept a row, the rows are appended to the table
  and the whole table is written to the file; the write is taken to succeed.
\<close>

definition save_new_test_cases :: "dict list \<Rightarrow> unit action" where
  "save_new_test_cases new_cases =
     (\<lambda>s. case rows_to_add (test_cases_df s) new_cases of
            Inl e \<Rightarrow> (Inl e, s)
          | Inr rows \<Rightarrow>
              if rows \<noteq> []
              then (Inr (), s\<lparr>test_cases_df := test_cases_df s @ rows,
                             test_cases_csv := test_cases_df s @ rows\<rparr>)
              else (Inr (), s))"

text \<open>
  \<open>is_similar\<close>, with the variant's \<open>cosine_similarity\<close> as a parameter: both texts are
  embedded, and the similarity is compared with the threshold.
\<close>

definition is_similar ::
  "(real list \<Rightarrow> real list \<Rightarrow> real option) \<Rightarrow> services \<Rightarrow> string \<Rightarrow> document \<Rightarrow> real \<Rightarrow> bool action" where
  "is_similar cosine env query doc threshold =
     act_bind (get_embedding env query) (\<lambda>query_emb.
     act_bind (get_embedding env (page_content doc)) (\<lambda>doc_emb.
       act_return (case cosine query_emb doc_emb of
                     None \<Rightarrow> False
                   | Some sim \<Rightarrow> sim \<ge> threshold)))"

section \<open>The text-output pipeline\<close>

definition not_found_message :: string where
  "not_found_message = ''**Error**: The defect could not be found in the database.''"

definition delimiter :: string where
  "delimiter = newline # ''### END TEST CASE ###'' @ [newline]"

definition REQUIRED_TEST_CASE_COUNT :: nat where
  "REQUIRED_TEST_CASE_COUNT = 4"

text \<open>
  \<open>format_tc\<close>, and the same five lines in \<open>existing_str\<close>: the fields of a test case
  with their labels, each value formatted as \<open>str\<close> does.
\<close>

definition format_tc :: "dict \<Rightarrow> error + string" where
  "format_tc tc =
     res_bind (getitem tc ''Test_Scenario'') (\<lambda>scenario.
     res_bind (getitem tc ''Test_Steps'') (\<lambda>steps.
     res_bind (getitem tc ''Pre_Requisite'') (\<lambda>pre.
     res_bind (getitem tc ''Expected_Result'') (\<lambda>expected.
     res_bind (getitem tc ''Pass_Fail_Criteria'') (\<lambda>criteria.
       Inr (''Test_Scenario: '' @ str_of_cell scenario @ newline #
            ''Test_Steps: '' @ str_of_cell steps @ newline #
            ''Pre_Requisite: '' @ str_of_cell pre @ newline #
            ''Expected_Result: '' @ str_of_cell expected @ newline #
            ''Pass_Fail_Criteria: '' @ str_of_cell criteria))))))"

text \<open>
  The blocks of a generated answer: the answer is split at the delimiter, blocks that
  are empty after \<open>strip\<close> are dropped, and the others are stripped.
\<close>

definition cases_raw :: "string \<Rightarrow> string list" where
  "cases_raw response = map strip (filter (\<lambda>tc. strip tc \<noteq> []) (re_split delimiter response))"

text \<open>
  The loop over the blocks: each block is parsed, and a case is built from it when its
  scenario is not empty.
\<close>

fun collect_cases :: "cell \<Rightarrow> string list \<Rightarrow> error + dict list" where
  "collect_cases module_name [] = Inr []"
| "collect_cases module_name (tc_raw # rest) =
     (let parsed = parse_test_case tc_raw
      in res_bind (getitem parsed ''Test_Scenario'') (\<lambda>nonempty.
           if nonempty \<noteq> [] then
             res_bind (getitem parsed ''Test_Scenario'') (\<lambda>scenario.
             res_bind (getitem parsed ''Test_Steps'') (\<lambda>steps.
             res_bind (getitem parsed ''Pre_Requisite'') (\<lambda>pre.
             res_bind (getitem parsed ''Pass_Fail_Criteria'') (\<lambda>criteria.
             res_bind (getitem parsed ''Expected_Result'') (\<lambda>expected.
             res_bind (collect_cases module_name rest) (\<lambda>cases.
               Inr ([(''Module'', module_name), (''Test_Scenario'', Str scenario),
                     (''Test_Steps'', Str steps), (''Pre_Requisite'', Str pre),
                     (''Pass_Fail_Criteria'', Str criteria), (''Expected_Result'', Str expected)]
                    # cases)))))))
           else collect_cases module_name rest))"

text \<open>
  The part of \<open>validate_or_generate_test_cases\<close> between the explanation and the final
  formatting, the Test Case Manager of the specification: the stored cases of the module
  are used when there are enough of them, supplemented by generated ones when there are
  some, and replaced by a generated set when there are none.
\<close>

definition test_case_manager ::
  "services \<Rightarrow> cell \<Rightarrow> string \<Rightarrow> string \<Rightarrow> string \<Rightarrow> dict list action" where
  "test_case_manager env module_name error_message solution explanation =
     (\<lambda>s.
       let csv_test_cases = get_csv_test_cases module_name (test_cases_df s)
       in (if csv_test_cases \<noteq> [] \<and> length csv_test_cases \<ge> REQUIRED_TEST_CASE_COUNT then
             act_return csv_test_cases
           else if csv_test_cases \<noteq> [] \<and> length csv_test_cases < REQUIRED_TEST_CASE_COUNT then
             (let num_to_generate = int REQUIRED_TEST_CASE_COUNT - int (length csv_test_cases)
              in act_bind (act_lift (res_map format_tc csv_test_cases)) (\<lambda>existing.
                 act_bind (llm_invoke env
                             (Additional_Prompt Text num_to_generate error_message solution
                                explanation (join [newline] existing))) (\<lambda>content.
                 let additional_response = strip content
                 in act_bind (act_lift (collect_cases module_name (cases_raw additional_response)))
                      (\<lambda>additional_cases.
                 let selected_cases = csv_test_cases @ additional_cases
                 in act_bind (if additional_cases \<noteq> [] then save_new_test_cases additional_cases
                              else act_return ()) (\<lambda>_.
                    act_return selected_cases)))))
           else
             act_bind (llm_invoke env (Full_Prompt Text error_message solution explanation))
               (\<lambda>content.
             let full_response = strip content
             in act_bind (act_lift (collect_cases module_name (cases_raw full_response)))
                  (\<lambda>selected_cases.
                act_bind (if selected_cases \<noteq> [] then save_new_test_cases selected_cases
                          else act_return ()) (\<lambda>_.
                act_return selected_cases)))) s)"

definition response_template :: "string \<Rightarrow> string \<Rightarrow> string \<Rightarrow> string \<Rightarrow> string" where
  "response_template error_message solution explanation test_cases_text =
     ''**Error:**'' @ newline # error_message @ [newline, newline] @
     ''**Solution:**'' @ newline # solution @ [newline, newline] @
     ''**Explanation:**'' @ newline # explanation @ [newline, newline] @
     ''**Test Cases:**'' @ newline # test_cases_text"

text \<open>
  The node \<open>validate_or_generate_test_cases\<close> of the workflow, on the input and the
  retrieved context of the agent state; its result is the response. \<open>try_block\<close> is the
  body of its \<open>try\<close> statement, and the handler turns every exception the body raises
  into a response.
\<close>

definition try_block ::
  "(real list \<Rightarrow> real list \<Rightarrow> real option) \<Rightarrow> services \<Rightarrow> string \<Rightarrow> document list \<Rightarrow> string action" where
  "try_block cosine env input context =
     (case context of
        [] \<Rightarrow> act_return not_found_message
      | doc # _ \<Rightarrow>
          (let error_message = input
           in act_bind (is_similar cosine env error_message doc (6 / 10)) (\<lambda>similar.
                if \<not> similar then act_return not_found_message
                else
                  (let solution = metadata_solution doc; module_name = metadata_module doc
                   in act_bind (llm_invoke env (Explanation_Prompt error_message solution))
                        (\<lambda>content.
                      let explanation = strip content
                      in act_bind (test_case_manager env module_name error_message solution
                                     explanation) (\<lambda>selected_cases.
                         act_bind (act_lift (res_map format_tc selected_cases)) (\<lambda>formatted.
                         act_return (response_template error_message solution explanation
                                       (join [newline, newline] formatted)))))))))"

definition validate_or_generate_test_cases ::
  "(real list \<Rightarrow> real list \<Rightarrow> real option) \<Rightarrow> services \<Rightarrow> string \<Rightarrow> document list \<Rightarrow> string action" where
  "validate_or_generate_test_cases cosine env input context =
     act_catch (try_block cosine env input context)
       (\<lambda>e. act_return (''Error processing request: '' @ str_of_error e))"

text \<open>The compiled workflow: \<open>retrieve\<close>, then the node, then the end.\<close>

definition agent_invoke ::
  "(real list \<Rightarrow> real list \<Rightarrow> real option) \<Rightarrow> services \<Rightarrow> string \<Rightarrow> string action" where
  "agent_invoke cosine env input =
     act_bind (retriever_invoke env input) (\<lambda>context.
       validate_or_generate_test_cases cosine env input context)"

definition auto_evaluate_solution :: "string \<Rightarrow> int" where
  "auto_evaluate_solution response =
     (if str_contains ''### END TEST CASE ###'' response then 5
      else if str_contains ''**Error**:'' response then 1
      else 3)"

definition generate_alternative_solution :: "services \<Rightarrow> string \<Rightarrow> string action" where
  "generate_alternative_solution env error_message =
     act_bind (llm_invoke env (Alt_Prompt error_message)) (\<lambda>content.
     let alternative_solution = strip content
     in act_bind (llm_invoke env (Test_Case_Prompt Text error_message alternative_solution))
          (\<lambda>content'.
        let alternative_test_cases = strip content'
        in act_return (''**Alternative Solution (Generated):**'' @ newline # alternative_solution @
                       [newline, newline] @
                       ''**Test Cases for Alternative Solution:**'' @ newline #
                       alternative_test_cases)))"

text \<open>
  The loop of \<open>get_solution_autonomously\<close>. One pass of the body either returns from
  the function or reaches \<open>iteration += 1\<close> with the response it has assigned; behind the
  loop the function returns the last response.
\<close>

datatype 'a flow = Return 'a | Next_Iteration 'a

definition max_iterations :: nat where
  "max_iterations = 3"

definition loop_body ::
  "(real list \<Rightarrow> real list \<Rightarrow> real option) \<Rightarrow> services \<Rightarrow> string \<Rightarrow> string flow action" where
  "loop_body cosine env error_message =
     act_bind (agent_invoke cosine env (strip error_message)) (\<lambda>response.
     let rating = auto_evaluate_solution response
     in if rating < 3 then
          act_bind (generate_alternative_solution env error_message) (\<lambda>alt_response.
            act_return (Return alt_response))
        else act_return (Return response))"

function while_loop ::
  "(real list \<Rightarrow> real list \<Rightarrow> real option) \<Rightarrow> services \<Rightarrow> string \<Rightarrow> nat \<Rightarrow> string option \<Rightarrow> string action" where
  "while_loop cosine env error_message iteration response =
     (if iteration < max_iterations then
        act_bind (loop_body cosine env error_message) (\<lambda>flow.
          case flow of
            Return result \<Rightarrow> act_return result
          | Next_Iteration response' \<Rightarrow>
              while_loop cosine env error_message (iteration + 1) (Some response'))
      else (case response of
              Some r \<Rightarrow> act_return r
            | None \<Rightarrow> act_lift (Inl (UnboundLocalError ''response''))))"
  by pat_completeness auto
termination
  by (relation "measure (\<lambda>(cosine, env, error_message, iteration, response). max_iterations - iteration)")
     auto

definition get_solution_autonomously ::
  "(real list \<Rightarrow> real list \<Rightarrow> real option) \<Rightarrow> services \<Rightarrow> string \<Rightarrow> string action" where
  "get_solution_autonomously cosine env error_message = while_loop cosine env error_message 0 None"

definition get_solution ::
  "(real list \<Rightarrow> real list \<Rightarrow> real option) \<Rightarrow> services \<Rightarrow> string \<Rightarrow> string action" where
  "get_solution cosine env error_message = get_solution_autonomously cosine env error_message"

section \<open>The JSON-output pipeline\<close>

text \<open>
  In the notebook variant the response is a dictionary whose values are texts or lists
  of test cases. \<open>json.loads\<close> and \<open>json.dumps\<close> are library functions and parameters of
  the model; an answer that parses is taken to be an array of objects whose values are
  texts (or \<open>NaN\<close>), as the prompt asks for, and other JSON values are outside the model.
\<close>

datatype jvalue = JStr string | JCases "dict list"

type_synonym jresponse = "(string \<times> jvalue) list"

text \<open>\<open>try: json.loads(text) except Exception: []\<close>.\<close>

definition loads_or_empty :: "services \<Rightarrow> string \<Rightarrow> dict list" where
  "loads_or_empty env text = (case json_loads env text of Inl e \<Rightarrow> [] | Inr parsed \<Rightarrow> parsed)"

definition test_case_manager_json ::
  "services \<Rightarrow> cell \<Rightarrow> string \<Rightarrow> string \<Rightarrow> string \<Rightarrow> dict list action" where
  "test_case_manager_json env module_name error_message solution explanation =
     (\<lambda>s.
       let csv_test_cases = get_csv_test_cases module_name (test_cases_df s)
       in (if csv_test_cases \<noteq> [] \<and> length csv_test_cases \<ge> REQUIRED_TEST_CASE_COUNT then
             act_return csv_test_cases
           else if csv_test_cases \<noteq> [] \<and> length csv_test_cases < REQUIRED_TEST_CASE_COUNT then
             (let num_to_generate = int REQUIRED_TEST_CASE_COUNT - int (length csv_test_cases);
                  existing_str = json_dumps env csv_test_cases
              in act_bind (llm_invoke env
                             (Additional_Prompt Json num_to_generate error_message solution
                                explanation existing_str)) (\<lambda>content.
                 let additional_response = strip content;
                     additional_cases = loads_or_empty env additional_response;
                     selected_cases = csv_test_cases @ additional_cases
                 in act_bind (if additional_cases \<noteq> [] then save_new_test_cases additional_cases
                              else act_return ()) (\<lambda>_.
                    act_return selected_cases)))
           else
             act_bind (llm_invoke env (Full_Prompt Json error_message solution explanation))
               (\<lambda>content.
             let full_response = strip content;
                 selected_cases = loads_or_empty env full_response
             in act_bind (if selected_cases \<noteq> [] then save_new_test_cases selected_cases
                          else act_return ()) (\<lambda>_.
                act_return selected_cases))) s)"

definition not_found_json :: jresponse where
  "not_found_json = [(''Error'', JStr not_found_message)]"

definition try_block_json :: "services \<Rightarrow> string \<Rightarrow> document list \<Rightarrow> jresponse action" where
  "try_block_json env input context =
     (case context of
        [] \<Rightarrow> act_return not_found_json
      | doc # _ \<Rightarrow>
          (let error_message = input
           in act_bind (is_similar cosine_similarity env error_message doc (6 / 10)) (\<lambda>similar.
                if \<not> similar then act_return not_found_json
                else
                  (let solution = metadata_solution doc; module_name = metadata_module doc
                   in act_bind (llm_invoke env (Explanation_Prompt error_message solution))
                        (\<lambda>content.
                      let explanation = strip content
                      in act_bind (test_case_manager_json env module_name error_message
                                     solution explanation) (\<lambda>selected_cases.
                         act_return [(''Error'', JStr error_message),
                                     (''Solution'', JStr solution),
                                     (''Explanation'', JStr explanation),
                                     (''TestCases'', JCases selected_cases)]))))))"

definition validate_or_generate_test_cases_json ::
  "services \<Rightarrow> string \<Rightarrow> document list \<Rightarrow> jresponse action" where
  "validate_or_generate_test_cases_json env input context =
     act_catch (try_block_json env input context)
       (\<lambda>e. act_return [(''Error'', JStr (''Error processing request: '' @ str_of_error e))])"

definition agent_invoke_json :: "services \<Rightarrow> string \<Rightarrow> jresponse action" where
  "agent_invoke_json env input =
     act_bind (retriever_invoke env input) (\<lambda>context.
       validate_or_generate_test_cases_json env input context)"

text \<open>
  \<open>auto_evaluate_solution\<close> of the notebook: 5 when the response has a key
  \<open>TestCases\<close> with a non-empty list, 1 otherwise.
\<close>

definition auto_evaluate_solution_json :: "jresponse \<Rightarrow> int" where
  "auto_evaluate_solution_json response =
     (case map_of response ''TestCases'' of
        Some (JCases test_cases) \<Rightarrow> if length test_cases > 0 then 5 else 1
      | Some (JStr _) \<Rightarrow> 1
      | None \<Rightarrow> 1)"

definition generate_alternative_solution_json :: "services \<Rightarrow> string \<Rightarrow> jresponse action" where
  "generate_alternative_solution_json env error_message =
     act_bind (llm_invoke env (Alt_Prompt error_message)) (\<lambda>content.
     let alternative_solution = strip content
     in act_bind (llm_invoke env (Test_Case_Prompt Json error_message alternative_solution))
          (\<lambda>content'.
        let alternative_test_cases_output = strip content';
            alternative_test_cases = loads_or_empty env alternative_test_cases_output
        in act_return [(''AlternativeSolution'', JStr alternative_solution),
                       (''TestCases'', JCases alternative_test_cases)]))"

definition loop_body_json :: "services \<Rightarrow> string \<Rightarrow> jresponse flow action" where
  "loop_body_json env error_message =
     act_bind (agent_invoke_json env (strip error_message)) (\<lambda>response.
     let rating = auto_evaluate_solution_json response
     in if rating < 3 then
          act_bind (generate_alternative_solution_json env error_message) (\<lambda>alt_response.
            act_return (Return alt_response))
        else act_return (Return response))"

function while_loop_json ::
  "services \<Rightarrow> string \<Rightarrow> nat \<Rightarrow> jresponse option \<Rightarrow> jresponse action" where
  "while_loop_json env error_message iteration response =
     (if iteration < max_iterations then
        act_bind (loop_body_json env error_message) (\<lambda>flow.
          case flow of
            Return result \<Rightarrow> act_return result
          | Next_Iteration response' \<Rightarrow>
              while_loop_json env error_message (iteration + 1) (Some response'))
      else (case response of
              Some r \<Rightarrow> act_return r
            | None \<Rightarrow> act_lift (Inl (UnboundLocalError ''response''))))"
  by pat_completeness auto
termination
  by (relation "measure (\<lambda>(env, error_message, iteration, response). max_iterations - iteration)")
     auto

definition get_solution_autonomously_json :: "services \<Rightarrow> string \<Rightarrow> jresponse action" where
  "get_solution_autonomously_json env error_message = while_loop_json env error_message 0 None"

definition get_solution_json :: "services \<Rightarrow> string \<Rightarrow> jresponse action" where
  "get_solution_json env error_message = get_solution_autonomously_json env error_message"

section \<open>Example services and states\<close>

text \<open>
  The scenario of the specification: one catalogued defect of the module \<open>Storage\<close>.
  The example embedding gives the description of the defect one direction and every
  other text an orthogonal one, so the similarity of a query with the defect is 1 when
  the query is the description and 0 otherwise.
\<close>

definition example_document :: document where
  "example_document =
     \<lparr>page_content = ''Disk read error on boot'', metadata_solution = ''Replace SATA cable'',
      metadata_module = Str ''Storage''\<rparr>"

definition example_embedding :: "string \<Rightarrow> error + real list" where
  "example_embedding text = (if text = ''Disk read error on boot'' then Inr [1, 0] else Inr [0, 1])"

definition example_case :: dict where
  "example_case =
     [(''Module'', Str ''Storage''), (''Test_Scenario'', Str ''Boot''), (''Test_Steps'', Str ''Power on''),
      (''Pre_Requisite'', Str ''New cable''), (''Pass_Fail_Criteria'', Str ''Boots''),
      (''Expected_Result'', Str ''Login screen'')]"

definition example_row :: row where
  "example_row =
     \<lparr>Module = Str ''Storage'', Test_Scenario = Str ''Boot'', Test_Steps = Str ''Power on'',
      Pre_Requisite = Str ''New cable'', Pass_Fail_Criteria = Str ''Boots'',
      Expected_Result = Str ''Login screen''\<rparr>"

definition empty_state :: state where
  "empty_state = \<lparr>test_cases_df = [], test_cases_csv = [], calls = []\<rparr>"

text \<open>
  JSON texts. \<open>example_json_dumps\<close> is \<open>json.dumps(cases, indent=2)\<close> for a non-empty list
  of non-empty cases whose keys and texts have no character that JSON escapes;
  \<open>example_json_loads\<close> is \<open>json.loads\<close> on the texts of the three arrays of cases used
  below, and takes every other text as one that does not parse.
\<close>

definition quoted :: "string \<Rightarrow> string" where
  "quoted text = CHR 0x22 # text @ [CHR 0x22]"

fun json_value :: "cell \<Rightarrow> string" where
  "json_value (Str text) = quoted text"
| "json_value NaN = ''NaN''"

definition json_object :: "dict \<Rightarrow> string" where
  "json_object tc =
     ''  {'' @ newline #
     join ('','' @ [newline]) (map (\<lambda>(key, v). ''    '' @ quoted key @ '': '' @ json_value v) tc) @
     newline # ''  }''"

definition example_json_dumps :: "dict list \<Rightarrow> string" where
  "example_json_dumps cases =
     ''['' @ newline # join ('','' @ [newline]) (map json_object cases) @ newline # '']''"

text \<open>
  A case with the five keys that the prompt of the notebook asks for, a case with all
  six keys of the table and an empty scenario, and \<open>example_case\<close>, which has all six
  keys.
\<close>

definition example_parsed_json :: "dict list" where
  "example_parsed_json =
     [[(''Test_Scenario'', Str ''Boot''), (''Test_Steps'', Str ''Power on''), (''Pre_Requisite'', Str ''New cable''),
       (''Expected_Result'', Str ''Login screen''), (''Pass_Fail_Criteria'', Str ''Boots'')]]"

definition blank_scenario_case :: dict where
  "blank_scenario_case =
     [(''Module'', Str ''Storage''), (''Test_Scenario'', Str []), (''Test_Steps'', Str ''Wait''),
      (''Pre_Requisite'', Str ''None''), (''Pass_Fail_Criteria'', Str ''Pass''), (''Expected_Result'', Str ''Boots'')]"

definition example_json_loads :: "string \<Rightarrow> error + dict list" where
  "example_json_loads text =
     (case find (\<lambda>cases. example_json_dumps cases = text)
             [example_parsed_json, [blank_scenario_case], [example_case]] of
        None \<Rightarrow> Inl (Failure ''Expecting value: line 1 column 1 (char 0)'')
      | Some cases \<Rightarrow> Inr cases)"

text \<open>
  Example services: the retriever finds the catalogued defect, and the language model
  explains, proposes an alternative and answers a request for test cases with one
  answer for each format. The text answer has two blocks, the second without a
  scenario; the JSON answer is the text of one case with the five keys that the prompt
  asks for.
\<close>

definition example_answer_text :: string where
  "example_answer_text =
     ''Test_Scenario: Swap\<newline>Test_Steps: Unplug\<newline>Pre_Requisite: Spare\<newline>'' @
     ''Expected_Result: Boots\<newline>Pass_Fail_Criteria: Pass\<newline>### END TEST CASE ###\<newline>'' @
     ''Test_Steps: Plug\<newline>### END TEST CASE ###''"

definition example_answer_json :: string where
  "example_answer_json = example_json_dumps example_parsed_json"

fun example_llm :: "string \<Rightarrow> event list \<Rightarrow> prompt \<Rightarrow> error + string" where
  "example_llm json_answer history (Explanation_Prompt error_message solution) =
     Inr ''The old cable was faulty. ''"
| "example_llm json_answer history
     (Additional_Prompt Text num error_message solution explanation existing) =
     Inr example_answer_text"
| "example_llm json_answer history
     (Additional_Prompt Json num error_message solution explanation existing) = Inr json_answer"
| "example_llm json_answer history (Full_Prompt Text error_message solution explanation) =
     Inr example_answer_text"
| "example_llm json_answer history (Full_Prompt Json error_message solution explanation) =
     Inr json_answer"
| "example_llm json_answer history (Alt_Prompt error_message) = Inr ''Reseat the drive.''"
| "example_llm json_answer history (Test_Case_Prompt Text error_message solution) =
     Inr example_answer_text"
| "example_llm json_answer history (Test_Case_Prompt Json error_message solution) =
     Inr json_answer"

definition example_services :: services where
  "example_services =
     \<lparr>retriever = (\<lambda>query. Inr [example_document]),
      embed_query = example_embedding,
      llm = example_llm example_answer_json,
      json_loads = example_json_loads,
      json_dumps = example_json_dumps\<rparr>"

text \<open>
  The same services with a language model that is unreachable, and with a vector store
  that is unreachable.
\<close>

definition unreachable_llm_services :: services where
  "unreachable_llm_services =
     example_services\<lparr>llm := (\<lambda>history p. Inl (Failure ''Connection error.''))\<rparr>"

definition unreachable_retriever_services :: services where
  "unreachable_retriever_services =
     example_services\<lparr>retriever := (\<lambda>query. Inl (Failure ''Index not loaded.''))\<rparr>"

text \<open>
  The same services with a language model that answers only while no call has been
  recorded.
\<close>

definition rate_limited_services :: services where
  "rate_limited_services =
     example_services\<lparr>llm := (\<lambda>history p. if history = [] then example_llm example_answer_json history p
                                         else Inl (Failure ''Rate limit reached.''))\<rparr>"

text \<open>
  The same services with a language model whose JSON answer is the text of the case
  with an empty scenario, and with one whose JSON answer is the text of \<open>example_case\<close>.
\<close>

definition blank_scenario_services :: services where
  "blank_scenario_services =
     example_services\<lparr>llm := example_llm (example_json_dumps [blank_scenario_case])\<rparr>"

definition module_key_services :: services where
  "module_key_services = example_services\<lparr>llm := example_llm (example_json_dumps [example_case])\<rparr>"

text \<open>A table with two proper cases of the module \<open>Storage\<close>, written to the file.\<close>

definition two_rows :: "row list" where
  "two_rows = [example_row, example_row\<lparr>Test_Scenario := Str ''Reboot''\<rparr>]"

definition two_rows_state :: state where
  "two_rows_state = \<lparr>test_cases_df = two_rows, test_cases_csv = two_rows, calls = []\<rparr>"

text \<open>
  A table with four proper cases of the module \<open>Storage\<close>, a case of another module and
  a case of \<open>Storage\<close> whose steps are blank, written to the file.
\<close>

definition four_rows :: "row list" where
  "four_rows =
     [example_row, example_row\<lparr>Test_Scenario := Str ''Reboot''\<rparr>,
      example_row\<lparr>Module := Str ''Network''\<rparr>,
      example_row\<lparr>Test_Scenario := Str ''Cold boot''\<rparr>,
      example_row\<lparr>Test_Scenario := Str ''No power'', Test_Steps := Str '' ''\<rparr>,
      example_row\<lparr>Test_Scenario := Str ''Warm boot''\<rparr>]"

definition four_rows_state :: state where
  "four_rows_state = \<lparr>test_cases_df = four_rows, test_cases_csv = four_rows, calls = []\<rparr>"

text \<open>
  The table as \<open>pd.read_csv\<close> gives it for a file with four proper cases of the module
  \<open>Storage\<close>, a case of another module and a fifth case of \<open>Storage\<close> whose steps
  are blank, as the file is after the program has saved a generated case without steps.
\<close>

definition reloaded_rows :: "row list" where
  "reloaded_rows =
     [example_row, example_row\<lparr>Test_Scenario := Str ''Reboot''\<rparr>,
      example_row\<lparr>Module := Str ''Network''\<rparr>,
      example_row\<lparr>Test_Scenario := Str ''Cold boot''\<rparr>,
      example_row\<lparr>Test_Scenario := Str ''No power'', Test_Steps := NaN\<rparr>,
      example_row\<lparr>Test_Scenario := Str ''Warm boot''\<rparr>]"

definition reloaded_state :: state where
  "reloaded_state = \<lparr>test_cases_df = reloaded_rows, test_cases_csv = reloaded_rows, calls = []\<rparr>"

text \<open>
  The case that \<open>get_csv_test_cases\<close> builds from \<open>example_row\<close> with another scenario
  and other steps.
\<close>

definition example_stored :: "cell \<Rightarrow> cell \<Rightarrow> dict" where
  "example_stored scenario steps =
     [(''Test_Scenario'', scenario), (''Test_Steps'', steps), (''Pre_Requisite'', Str ''New cable''),
      (''Pass_Fail_Criteria'', Str ''Boots''), (''Expected_Result'', Str ''Login screen''),
      (''Module'', Str ''Storage'')]"

text \<open>
  The report that the text pipeline gives for the catalogued defect when the table holds
  four proper cases of its module.
\<close>

definition example_formatted_case :: "string \<Rightarrow> string" where
  "example_formatted_case scenario =
     ''Test_Scenario: '' @ scenario @ newline # ''Test_Steps: Power on'' @ newline #
     ''Pre_Requisite: New cable'' @ newline # ''Expected_Result: Login screen'' @ newline #
     ''Pass_Fail_Criteria: Boots''"

definition example_report :: string where
  "example_report =
     ''**Error:**'' @ newline # ''Disk read error on boot'' @ [newline, newline] @
     ''**Solution:**'' @ newline # ''Replace SATA cable'' @ [newline, newline] @
     ''**Explanation:**'' @ newline # ''The old cable was faulty.'' @ [newline, newline] @
     ''**Test Cases:**'' @ newline #
     example_formatted_case ''Boot'' @ [newline, newline] @
     example_formatted_case ''Reboot'' @ [newline, newline] @
     example_formatted_case ''Cold boot'' @ [newline, newline] @
     example_formatted_case ''Warm boot''"

section \<open>Notions used in the statements\<close>

text \<open>
  The prompt with which the notebook variant asks for test cases when the module has
  fewer stored cases than required: for the missing number of additional cases when it
  has some, for a full set when it has none.
\<close>

definition generation_prompt_json ::
  "services \<Rightarrow> string \<Rightarrow> string \<Rightarrow> string \<Rightarrow> dict list \<Rightarrow> prompt" where
  "generation_prompt_json env error_message solution explanation stored =
     (if stored = [] then Full_Prompt Json error_message solution explanation
      else Additional_Prompt Json (4 - int (length stored)) error_message solution explanation
             (json_dumps env stored))"

text \<open>
  The value of a field in the result of \<open>parse_test_case\<close>, the value of a key in a case,
  the row that a case with the six keys of the table becomes, and the cases that the
  text variants build from a generated answer: every block is parsed, the blocks with an
  empty scenario are dropped, and each of the others becomes a case of the module.
  \<open>existing_str\<close> is the text of the stored cases in the prompt for additional ones.
\<close>

definition dict_field :: "fields \<Rightarrow> string \<Rightarrow> string" where
  "dict_field d key = (case map_of d key of None \<Rightarrow> [] | Some v \<Rightarrow> v)"

definition case_cell :: "dict \<Rightarrow> string \<Rightarrow> cell" where
  "case_cell tc key = (case map_of tc key of None \<Rightarrow> NaN | Some v \<Rightarrow> v)"

definition has_table_keys :: "dict \<Rightarrow> bool" where
  "has_table_keys tc =
     list_all (\<lambda>key. map_of tc key \<noteq> None)
       [''Module'', ''Test_Scenario'', ''Test_Steps'', ''Pre_Requisite'', ''Pass_Fail_Criteria'',
        ''Expected_Result'']"

definition row_of_case :: "dict \<Rightarrow> row" where
  "row_of_case tc =
     \<lparr>Module = case_cell tc ''Module'', Test_Scenario = case_cell tc ''Test_Scenario'',
      Test_Steps = case_cell tc ''Test_Steps'', Pre_Requisite = case_cell tc ''Pre_Requisite'',
      Pass_Fail_Criteria = case_cell tc ''Pass_Fail_Criteria'',
      Expected_Result = case_cell tc ''Expected_Result''\<rparr>"

definition generated_case :: "cell \<Rightarrow> string \<Rightarrow> dict" where
  "generated_case module_name tc_raw =
     (let parsed = parse_test_case tc_raw
      in [(''Module'', module_name), (''Test_Scenario'', Str (dict_field parsed ''Test_Scenario'')),
          (''Test_Steps'', Str (dict_field parsed ''Test_Steps'')),
          (''Pre_Requisite'', Str (dict_field parsed ''Pre_Requisite'')),
          (''Pass_Fail_Criteria'', Str (dict_field parsed ''Pass_Fail_Criteria'')),
          (''Expected_Result'', Str (dict_field parsed ''Expected_Result''))])"

definition has_scenario :: "string \<Rightarrow> bool" where
  "has_scenario tc_raw = (dict_field (parse_test_case tc_raw) ''Test_Scenario'' \<noteq> [])"

definition generated_cases :: "cell \<Rightarrow> string \<Rightarrow> dict list" where
  "generated_cases module_name response =
     map (generated_case module_name) (filter has_scenario (cases_raw response))"

definition existing_str :: "dict list \<Rightarrow> string" where
  "existing_str stored =
     join [newline] (map (\<lambda>tc. case format_tc tc of Inl e \<Rightarrow> [] | Inr lines \<Rightarrow> lines) stored)"

text \<open>
  The valid stored test cases of the specification: the rows of the module all of whose
  five other fields are texts that are not empty after trimming. A row is complete when
  none of these five cells is missing, and a row has no missing cell when its module is
  not missing either.
\<close>

fun nonblank :: "cell \<Rightarrow> bool" where
  "nonblank (Str text) = (strip text \<noteq> [])"
| "nonblank NaN = False"

definition valid_case :: "row \<Rightarrow> bool" where
  "valid_case r =
     (nonblank (Test_Scenario r) \<and> nonblank (Test_Steps r) \<and> nonblank (Pre_Requisite r) \<and>
      nonblank (Pass_Fail_Criteria r) \<and> nonblank (Expected_Result r))"

definition valid_rows :: "string \<Rightarrow> row list \<Rightarrow> row list" where
  "valid_rows module_name df = filter valid_case (filter (\<lambda>r. Module r = Str module_name) df)"

fun is_text :: "cell \<Rightarrow> bool" where
  "is_text (Str text) = True"
| "is_text NaN = False"

definition complete :: "row \<Rightarrow> bool" where
  "complete r =
     (is_text (Test_Scenario r) \<and> is_text (Test_Steps r) \<and> is_text (Pre_Requisite r) \<and>
      is_text (Pass_Fail_Criteria r) \<and> is_text (Expected_Result r))"

definition no_missing_cell :: "row \<Rightarrow> bool" where
  "no_missing_cell r = (is_text (Module r) \<and> complete r)"

text \<open>
  The comparison of \<open>save_new_test_cases\<close>: a row of the table is a duplicate of a new row
  when the six cells are equal as \<open>==\<close> has it.
\<close>

definition same_row :: "row \<Rightarrow> row \<Rightarrow> bool" where
  "same_row r x =
     (cell_eq (Module r) (Module x) \<and> cell_eq (Test_Scenario r) (Test_Scenario x) \<and>
      cell_eq (Test_Steps r) (Test_Steps x) \<and> cell_eq (Pre_Requisite r) (Pre_Requisite x) \<and>
      cell_eq (Pass_Fail_Criteria r) (Pass_Fail_Criteria x) \<and>
      cell_eq (Expected_Result r) (Expected_Result x))"

definition is_new :: "row list \<Rightarrow> row \<Rightarrow> bool" where
  "is_new df x = (filter (\<lambda>r. same_row r x) df = [])"

text \<open>
  The single-shot evaluation of the specification: the workflow is invoked once and its
  response is scored; a score below 3 replaces it by a generated alternative, any other
  score returns it.
\<close>

definition single_shot ::
  "(real list \<Rightarrow> real list \<Rightarrow> real option) \<Rightarrow> services \<Rightarrow> string \<Rightarrow> string action" where
  "single_shot cosine env error_message =
     act_bind (agent_invoke cosine env (strip error_message)) (\<lambda>response.
       if auto_evaluate_solution response < 3 then generate_alternative_solution env error_message
       else act_return response)"

definition single_shot_json :: "services \<Rightarrow> string \<Rightarrow> jresponse action" where
  "single_shot_json env error_message =
     act_bind (agent_invoke_json env (strip error_message)) (\<lambda>response.
       if auto_evaluate_solution_json response < 3
       then generate_alternative_solution_json env error_message
       else act_return response)"

text \<open>
  Counts over the record of calls: every invocation of the workflow starts with one call
  of the retriever, every call of \<open>generate_alternative_solution\<close> with one prompt for an
  alternative solution, and a generation call is any call of the language model.
\<close>

fun is_retrieval :: "event \<Rightarrow> bool" where
  "is_retrieval (Retrieve query) = True"
| "is_retrieval (Embed text) = False"
| "is_retrieval (Llm p) = False"

fun is_alternative_request :: "event \<Rightarrow> bool" where
  "is_alternative_request (Llm (Alt_Prompt error_message)) = True"
| "is_alternative_request ev = False"

fun is_generation :: "event \<Rightarrow> bool" where
  "is_generation (Llm p) = True"
| "is_generation ev = False"

definition workflow_invocations :: "event list \<Rightarrow> nat" where
  "workflow_invocations history = length (filter is_retrieval history)"

definition alternative_generations :: "event list \<Rightarrow> nat" where
  "alternative_generations history = length (filter is_alternative_request history)"

definition generation_calls :: "event list \<Rightarrow> event list" where
  "generation_calls history = filter is_generation history"

text \<open>
  The events that the node of the workflow can record: embeddings, and the prompts for
  the explanation and for test cases.
\<close>

fun is_node_event :: "event \<Rightarrow> bool" where
  "is_node_event (Embed text) = True"
| "is_node_event (Llm (Explanation_Prompt error_message solution)) = True"
| "is_node_event (Llm (Additional_Prompt fmt num error_message solution explanation existing)) = True"
| "is_node_event (Llm (Full_Prompt fmt error_message solution explanation)) = True"
| "is_node_event ev = False"

text \<open>
  \<open>records_only P m\<close>: whatever the action \<open>m\<close> does, it only appends events that
  satisfy \<open>P\<close> to the record of calls.
\<close>

definition records_only :: "(event \<Rightarrow> bool) \<Rightarrow> 'a action \<Rightarrow> bool" where
  "records_only P m = (\<forall>s. \<exists>events. calls (snd (m s)) = calls s @ events \<and> list_all P events)"

text \<open>
  The gate rejects a query when the store gave no document, or when both embeddings
  succeed and the similarity of the query with the first document is below 0.6 or
  undefined.
\<close>

definition gate_rejects ::
  "(real list \<Rightarrow> real list \<Rightarrow> real option) \<Rightarrow> services \<Rightarrow> string \<Rightarrow> document list \<Rightarrow> bool" where
  "gate_rejects cosine env query context =
     (case context of
        [] \<Rightarrow> True
      | doc # _ \<Rightarrow>
          (case embed_query env query of
             Inl e \<Rightarrow> False
           | Inr query_emb \<Rightarrow>
               (case embed_query env (page_content doc) of
                  Inl e \<Rightarrow> False
                | Inr doc_emb \<Rightarrow>
                    (case cosine query_emb doc_emb of
                       None \<Rightarrow> True
                     | Some sim \<Rightarrow> sim < 6 / 10))))"

text \<open>The prompts of \<open>generate_alternative_solution\<close>.\<close>

fun is_alternative_prompt :: "prompt \<Rightarrow> bool" where
  "is_alternative_prompt (Alt_Prompt error_message) = True"
| "is_alternative_prompt (Test_Case_Prompt fmt error_message solution) = True"
| "is_alternative_prompt p = False"

section \<open>Properties of the similarity gate\<close>

lemma sum_squares_zero: "sum_list (map (\<lambda>x. x * x) (vec :: real list)) = 0 \<Longrightarrow> \<forall>x \<in> set vec. x = 0"
proof (induction vec)
  case Nil
  then show ?case by simp
next
  case (Cons a vec)
  have nn: "0 \<le> sum_list (map (\<lambda>x. x * x) vec)"
    by (rule sum_list_nonneg) auto
  have "a * a + sum_list (map (\<lambda>x. x * x) vec) = 0"
    using Cons.prems by simp
  with nn have "a * a = 0" and "sum_list (map (\<lambda>x. x * x) vec) = 0"
    by (smt (verit) zero_le_square)+
  with Cons.IH show ?case by simp
qed

lemma np_dot_zero_vector: "\<forall>x \<in> set vec1. x = 0 \<Longrightarrow> np_dot vec1 vec2 = 0"
  unfolding np_dot_def
  by (induction vec1 arbitrary: vec2) (auto simp: zip_Cons1 split: list.splits)

lemma np_dot_zero_norm: "np_linalg_norm vec1 = 0 \<Longrightarrow> np_dot vec1 vec2 = 0"
  unfolding np_linalg_norm_def
  by (simp add: sum_squares_zero np_dot_zero_vector)

lemma cosine_similarity_v1_scaled:
  "np_linalg_norm vec1 \<noteq> 0 \<Longrightarrow> np_linalg_norm vec2 \<noteq> 0 \<Longrightarrow>
   cosine_similarity_v1 vec1 vec2 =
     map_option (\<lambda>c. c * (np_linalg_norm vec2 * np_linalg_norm vec2)) (cosine_similarity vec1 vec2)"
  by (simp add: cosine_similarity_v1_def cosine_similarity_def)

text \<open>
  C3. On the vectors \<open>[1]\<close> and \<open>[2]\<close>, both of nonzero norm, the first script's
  \<open>cosine_similarity\<close> returns 4 where the closed form \<open>dot(a,b)/(\<parallel>a\<parallel>\<cdot>\<parallel>b\<parallel>)\<close> of the
  other variants returns 1: the missing parentheses multiply by the second norm instead
  of dividing by it.
\<close>

theorem cosine_similarity_v1_not_closed_form:
  "np_linalg_norm [1] \<noteq> 0 \<and> np_linalg_norm [2] \<noteq> 0 \<and>
   cosine_similarity_v1 [1] [2] = Some 4 \<and> cosine_similarity [1] [2] = Some 1"
  by (simp add: cosine_similarity_v1_def cosine_similarity_def np_linalg_norm_def np_dot_def)

section \<open>Properties of persistence and parsing\<close>

lemma getitem_present:
  "map_of tc key \<noteq> None \<Longrightarrow> getitem tc key = Inr (case_cell tc key)"
  by (auto simp: getitem_def case_cell_def)

lemma cell_eq_text: "is_text b \<Longrightarrow> cell_eq a b = (a = b)"
  by (cases a; cases b) simp_all

lemma same_row_no_missing:
  assumes "no_missing_cell x"
  shows "same_row r x = (r = (x :: row))"
proof -
  from assms have "same_row r x =
      (Module r = Module x \<and> Test_Scenario r = Test_Scenario x \<and> Test_Steps r = Test_Steps x \<and>
       Pre_Requisite r = Pre_Requisite x \<and> Pass_Fail_Criteria r = Pass_Fail_Criteria x \<and>
       Expected_Result r = Expected_Result x)"
    by (simp add: same_row_def no_missing_cell_def complete_def cell_eq_text)
  also have "\<dots> = (r = x)" by auto
  finally show ?thesis .
qed

lemma is_new_no_missing: "no_missing_cell x \<Longrightarrow> is_new df x = (x \<notin> set df)"
  by (auto simp: is_new_def same_row_no_missing filter_empty_conv)

lemma filter_is_new_no_missing:
  "list_all no_missing_cell rows \<Longrightarrow> filter (is_new df) rows = filter (\<lambda>r. r \<notin> set df) rows"
  by (rule filter_cong) (simp_all add: list_all_iff is_new_no_missing)

lemma rows_to_add_well_formed:
  "list_all has_table_keys new_cases \<Longrightarrow>
   rows_to_add df new_cases = Inr (filter (is_new df) (map row_of_case new_cases))"
proof (induction new_cases)
  case Nil
  show ?case by simp
next
  case (Cons tc new_cases)
  then have keys: "has_table_keys tc" and rest: "rows_to_add df new_cases =
      Inr (filter (is_new df) (map row_of_case new_cases))"
    by simp_all
  from keys have present:
    "getitem tc ''Module'' = Inr (case_cell tc ''Module'')"
    "getitem tc ''Test_Scenario'' = Inr (case_cell tc ''Test_Scenario'')"
    "getitem tc ''Test_Steps'' = Inr (case_cell tc ''Test_Steps'')"
    "getitem tc ''Pre_Requisite'' = Inr (case_cell tc ''Pre_Requisite'')"
    "getitem tc ''Pass_Fail_Criteria'' = Inr (case_cell tc ''Pass_Fail_Criteria'')"
    "getitem tc ''Expected_Result'' = Inr (case_cell tc ''Expected_Result'')"
    by (simp_all add: has_table_keys_def getitem_present)
  have dup: "(filter (\<lambda>r. cell_eq (Module r) (case_cell tc ''Module'') \<and>
               cell_eq (Test_Scenario r) (case_cell tc ''Test_Scenario'') \<and>
               cell_eq (Test_Steps r) (case_cell tc ''Test_Steps'') \<and>
               cell_eq (Pre_Requisite r) (case_cell tc ''Pre_Requisite'') \<and>
               cell_eq (Pass_Fail_Criteria r) (case_cell tc ''Pass_Fail_Criteria'') \<and>
               cell_eq (Expected_Result r) (case_cell tc ''Expected_Result'')) df = []) =
             is_new df (row_of_case tc)"
    by (simp add: is_new_def same_row_def row_of_case_def)
  show ?case
    by (simp add: present rest res_bind_def dup Let_def) (simp add: row_of_case_def)
qed

lemma save_new_test_cases_well_formed:
  assumes "list_all has_table_keys new_cases"
  shows "save_new_test_cases new_cases s =
           (Inr (),
            if filter (is_new (test_cases_df s)) (map row_of_case new_cases) \<noteq> []
            then s\<lparr>test_cases_df :=
                      test_cases_df s @
                      filter (is_new (test_cases_df s)) (map row_of_case new_cases),
                    test_cases_csv :=
                      test_cases_df s @
                      filter (is_new (test_cases_df s)) (map row_of_case new_cases)\<rparr>
            else s)"
  by (simp add: save_new_test_cases_def rows_to_add_well_formed [OF assms])

lemma save_new_test_cases_texts:
  assumes "list_all has_table_keys new_cases"
    and "list_all no_missing_cell (map row_of_case new_cases)"
  shows "save_new_test_cases new_cases s =
           (Inr (),
            if filter (\<lambda>r. r \<notin> set (test_cases_df s)) (map row_of_case new_cases) \<noteq> []
            then s\<lparr>test_cases_df :=
                      test_cases_df s @
                      filter (\<lambda>r. r \<notin> set (test_cases_df s)) (map row_of_case new_cases),
                    test_cases_csv :=
                      test_cases_df s @
                      filter (\<lambda>r. r \<notin> set (test_cases_df s)) (map row_of_case new_cases)\<rparr>
            else s)"
  unfolding save_new_test_cases_well_formed [OF assms(1)] filter_is_new_no_missing [OF assms(2)]
  by (rule refl)

lemma save_new_test_cases_distinct:
  assumes keys: "list_all has_table_keys new_cases"
    and texts: "list_all no_missing_cell (map row_of_case new_cases)"
    and batch: "distinct (map row_of_case new_cases)"
    and table: "distinct (test_cases_df s)"
  shows "distinct (test_cases_df (snd (save_new_test_cases new_cases s)))"
  using batch table
  by (auto simp: save_new_test_cases_texts [OF keys texts] distinct_filter)

lemma save_new_test_cases_twice:
  assumes keys: "has_table_keys tc" and texts: "no_missing_cell (row_of_case tc)"
  shows "save_new_test_cases [tc] (snd (save_new_test_cases [tc] s)) =
           (Inr (), snd (save_new_test_cases [tc] s))"
    and "distinct (test_cases_df s) \<Longrightarrow>
           distinct (test_cases_df (snd (save_new_test_cases [tc] (snd (save_new_test_cases [tc] s)))))"
proof -
  from keys have wf: "list_all has_table_keys [tc]" by simp
  from texts have tx: "list_all no_missing_cell (map row_of_case [tc])" by simp
  show "save_new_test_cases [tc] (snd (save_new_test_cases [tc] s)) =
           (Inr (), snd (save_new_test_cases [tc] s))"
    by (simp add: save_new_test_cases_texts [OF wf tx])
  then show "distinct (test_cases_df s) \<Longrightarrow>
           distinct (test_cases_df (snd (save_new_test_cases [tc] (snd (save_new_test_cases [tc] s)))))"
    by (simp add: save_new_test_cases_texts [OF wf tx])
qed

text \<open>
  C2. Saving a batch that holds the same new case twice into the empty table stores the
  row twice: each case of the batch is compared with the table as it was before the
  call, not with the cases kept before it, so the table then has two rows that agree on
  all six fields.
\<close>

theorem save_new_test_cases_keeps_duplicates_of_batch:
  "save_new_test_cases [example_case, example_case] empty_state =
     (Inr (), \<lparr>test_cases_df = [example_row, example_row],
               test_cases_csv = [example_row, example_row], calls = []\<rparr>) \<and>
   \<not> distinct [example_row, example_row]"
  by (simp add: save_new_test_cases_def example_case_def example_row_def empty_state_def
        getitem_def res_bind_def)

text \<open>
  Giving back whitespace never helps the tail of the pattern: it matches exactly when
  the lookahead holds behind all the leading whitespace.
\<close>

lemma lookahead_after_space:
  assumes "isspace c" and "lookahead (c # rest)"
  shows "rest = []"
proof -
  have "\<not> list_ex (\<lambda>label. prefix label (c # rest)) lookahead_labels"
    using assms(1) by (auto simp: lookahead_labels_def isspace_def)
  with assms(2) show ?thesis
    by (simp add: lookahead_def)
qed

lemma tail_matches_dropWhile: "tail_matches s = lookahead (dropWhile isspace s)"
proof -
  let ?n = "length (takeWhile isspace s)"
  have rest: "dropWhile isspace s = drop ?n s"
    by (rule dropWhile_eq_drop)
  show ?thesis
  proof
    assume "lookahead (dropWhile isspace s)"
    then have "lookahead (drop ?n s)" by (simp add: rest)
    then show "tail_matches s"
      unfolding tail_matches_def list_ex_iff by (intro bexI [of _ ?n]) simp_all
  next
    assume "tail_matches s"
    then obtain k where "k \<in> set (rev [0 ..< Suc ?n])" and ahead: "lookahead (drop k s)"
      unfolding tail_matches_def list_ex_iff by blast
    then have k: "k \<le> ?n" by auto
    show "lookahead (dropWhile isspace s)"
    proof (cases "k = ?n")
      case True
      with ahead show ?thesis by (simp add: rest)
    next
      case False
      with k have less: "k < ?n" by simp
      then have space: "isspace (s ! k)"
        by (metis nth_mem set_takeWhileD takeWhile_nth)
      from less have "k < length s"
        by (meson length_takeWhile_le less_le_trans)
      then have "drop k s = s ! k # drop (Suc k) s"
        by (simp add: Cons_nth_drop_Suc)
      with ahead space have "drop (Suc k) s = []"
        using lookahead_after_space by metis
      with less have "drop ?n s = []" by simp
      then show ?thesis by (simp add: rest lookahead_def)
    qed
  qed
qed

text \<open>
  C9. In the text \<open>Test_Steps: a Test_Scenario: b\<close> the steps are followed by the label
  of the scenario, and \<open>parse_test_case\<close> does not stop there: the lookahead of the
  pattern lists four of the five labels, so the field of the steps takes the label of the
  scenario and its text as well.
\<close>

theorem parse_test_case_runs_over_scenario_label:
  "parse_test_case ''Test_Steps: a Test_Scenario: b'' =
     [(''Test_Scenario'', ''b''), (''Test_Steps'', ''a Test_Scenario: b''),
      (''Pre_Requisite'', ''''), (''Expected_Result'', ''''), (''Pass_Fail_Criteria'', '''')]"
  by (simp add: parse_test_case_def field_names_def match_at_def tail_matches_def lookahead_def
        lookahead_labels_def isspace_def strip_def newline_def)

section \<open>Properties of the actions\<close>

lemmas act_defs = act_return_def act_lift_def act_bind_def act_catch_def

lemma is_similar_frame:
  "\<exists>events. snd (is_similar cosine env query doc threshold s) = s\<lparr>calls := calls s @ events\<rparr> \<and>
     list_all (\<lambda>ev. \<exists>text. ev = Embed text) events"
  by (cases "embed_query env query"; cases "embed_query env (page_content doc)")
     (auto simp: is_similar_def act_defs get_embedding_def
           intro: exI [of _ "[Embed query]"] exI [of _ "[Embed query, Embed (page_content doc)]"])

lemma is_similar_tables:
  assumes "is_similar cosine env query doc threshold s = (r, s1)"
  shows "test_cases_df s1 = test_cases_df s \<and> test_cases_csv s1 = test_cases_csv s"
proof -
  obtain events where "snd (is_similar cosine env query doc threshold s) = s\<lparr>calls := calls s @ events\<rparr>"
    using is_similar_frame by blast
  with assms show ?thesis by simp
qed


section \<open>Stored cases and the valid rows of a table\<close>

lemma strip_str_of_cell: "is_text c \<Longrightarrow> (strip (str_of_cell c) \<noteq> []) = nonblank c"
  by (cases c) simp_all

lemma required_fields_present_complete:
  "complete r \<Longrightarrow> required_fields_present r = valid_case r"
  by (simp add: complete_def required_fields_present_def valid_case_def strip_str_of_cell)

lemma valid_case_complete: "valid_case r \<Longrightarrow> complete r"
proof -
  have cell: "\<And>c. nonblank c \<Longrightarrow> is_text c"
    subgoal for c by (cases c) simp_all
    done
  assume "valid_case r"
  then show "complete r"
    by (simp add: valid_case_def complete_def cell)
qed

lemma get_csv_test_cases_complete:
  assumes "list_all complete (filter (\<lambda>r. Module r = Str module_name) df)"
  shows "get_csv_test_cases (Str module_name) df = map tc_dict (valid_rows module_name df)"
proof -
  have rows: "filter (\<lambda>r. cell_eq (Module r) (Str module_name)) df =
              filter (\<lambda>r. Module r = Str module_name) df"
    by (simp add: cell_eq_text)
  have "filter required_fields_present (filter (\<lambda>r. Module r = Str module_name) df) =
        filter valid_case (filter (\<lambda>r. Module r = Str module_name) df)"
    using assms by (intro filter_cong refl) (simp add: list_all_iff required_fields_present_complete)
  then show ?thesis
    by (simp add: get_csv_test_cases_def valid_rows_def rows)
qed

lemma row_of_case_tc_dict: "row_of_case (tc_dict r) = r"
  by (simp add: row_of_case_def tc_dict_def case_cell_def)

lemma map_row_of_case_tc_dict: "map row_of_case (map tc_dict rows) = rows"
  by (induction rows) (simp_all add: row_of_case_tc_dict)

section \<open>The example services\<close>

lemma strip_example_json_dumps: "strip (example_json_dumps cases) = example_json_dumps cases"
  unfolding example_json_dumps_def by (simp add: strip_def isspace_def)

lemma example_json_loads_parsed:
  "example_json_loads (example_json_dumps example_parsed_json) = Inr example_parsed_json"
  by (simp add: example_json_loads_def example_json_dumps_def json_object_def quoted_def
        example_case_def example_parsed_json_def blank_scenario_case_def newline_def)

lemma example_json_loads_blank_scenario:
  "example_json_loads (example_json_dumps [blank_scenario_case]) = Inr [blank_scenario_case]"
  by (simp add: example_json_loads_def example_json_dumps_def json_object_def quoted_def
        example_case_def example_parsed_json_def blank_scenario_case_def newline_def)

lemma example_json_loads_example_case:
  "example_json_loads (example_json_dumps [example_case]) = Inr [example_case]"
  by (simp add: example_json_loads_def example_json_dumps_def json_object_def quoted_def
        example_case_def example_parsed_json_def blank_scenario_case_def newline_def)

lemma example_gate_accepts:
  "is_similar cosine_similarity example_services ''Disk read error on boot'' example_document
     (6 / 10) s =
   (Inr True, s\<lparr>calls := calls s @ [Embed ''Disk read error on boot'', Embed ''Disk read error on boot'']\<rparr>)"
  by (simp add: is_similar_def act_defs get_embedding_def example_services_def
        example_embedding_def example_document_def cosine_similarity_def np_dot_def
        np_linalg_norm_def)
section \<open>The notebook variant and generated cases without a module\<close>

lemma rows_to_add_no_module:
  "map_of tc ''Module'' = None \<Longrightarrow> rows_to_add df (tc # new_cases) = Inl (KeyError ''Module'')"
  by (simp add: getitem_def res_bind_def)

lemma save_new_test_cases_no_module:
  "map_of tc ''Module'' = None \<Longrightarrow>
   save_new_test_cases (tc # new_cases) s = (Inl (KeyError ''Module''), s)"
  by (simp add: save_new_test_cases_def rows_to_add_no_module del: rows_to_add.simps)

lemma test_case_manager_json_no_module:
  assumes few: "length (get_csv_test_cases module_name (test_cases_df s)) < 4"
    and answer: "llm env (calls s)
                   (generation_prompt_json env error_message solution explanation
                      (get_csv_test_cases module_name (test_cases_df s))) = Inr content"
    and parsed: "json_loads env (strip content) = Inr new_cases"
    and nonempty: "new_cases \<noteq> []"
    and no_module: "\<forall>tc \<in> set new_cases. map_of tc ''Module'' = None"
  shows "test_case_manager_json env module_name error_message solution explanation s =
           (Inl (KeyError ''Module''),
            s\<lparr>calls := calls s @
                 [Llm (generation_prompt_json env error_message solution explanation
                        (get_csv_test_cases module_name (test_cases_df s)))]\<rparr>)"
proof -
  from nonempty no_module obtain tc rest where nc: "new_cases = tc # rest" and "map_of tc ''Module'' = None"
    by (cases new_cases) auto
  then have save: "\<And>s'. save_new_test_cases new_cases s' = (Inl (KeyError ''Module''), s')"
    by (simp add: save_new_test_cases_no_module)
  show ?thesis
  proof (cases "get_csv_test_cases module_name (test_cases_df s) = []")
    case True
    with answer parsed nonempty save show ?thesis
      by (simp add: test_case_manager_json_def generation_prompt_json_def act_defs llm_invoke_def
            loads_or_empty_def REQUIRED_TEST_CASE_COUNT_def Let_def)
  next
    case False
    with few answer parsed nonempty save show ?thesis
      by (simp add: test_case_manager_json_def generation_prompt_json_def act_defs llm_invoke_def
            loads_or_empty_def REQUIRED_TEST_CASE_COUNT_def Let_def)
  qed
qed

lemma node_json_no_module:
  assumes gate: "is_similar cosine_similarity env input doc (6 / 10) s = (Inr True, s1)"
    and explanation: "llm env (calls s1) (Explanation_Prompt input (metadata_solution doc)) = Inr content"
    and few: "length (get_csv_test_cases (metadata_module doc) (test_cases_df s)) < 4"
    and answer: "llm env (calls s1 @ [Llm (Explanation_Prompt input (metadata_solution doc))])
                   (generation_prompt_json env input (metadata_solution doc) (strip content)
                      (get_csv_test_cases (metadata_module doc) (test_cases_df s))) = Inr generated"
    and parsed: "json_loads env (strip generated) = Inr new_cases"
    and nonempty: "new_cases \<noteq> []"
    and no_module: "\<forall>tc \<in> set new_cases. map_of tc ''Module'' = None"
  shows "validate_or_generate_test_cases_json env input (doc # context) s =
           (Inr [(''Error'', JStr (''Error processing request: '' @ CHR 0x27 # ''Module'' @ [CHR 0x27]))],
            s1\<lparr>calls := calls s1 @
                   [Llm (Explanation_Prompt input (metadata_solution doc)),
                    Llm (generation_prompt_json env input (metadata_solution doc) (strip content)
                           (get_csv_test_cases (metadata_module doc) (test_cases_df s)))]\<rparr>)"
proof -
  let ?s2 = "s1\<lparr>calls := calls s1 @ [Llm (Explanation_Prompt input (metadata_solution doc))]\<rparr>"
  from gate have tables: "test_cases_df s1 = test_cases_df s" "test_cases_csv s1 = test_cases_csv s"
    using is_similar_tables by blast+
  have manager: "test_case_manager_json env (metadata_module doc) input (metadata_solution doc) (strip content) ?s2 =
          (Inl (KeyError ''Module''),
           ?s2\<lparr>calls := calls ?s2 @
                 [Llm (generation_prompt_json env input (metadata_solution doc) (strip content)
                        (get_csv_test_cases (metadata_module doc) (test_cases_df ?s2)))]\<rparr>)"
    by (rule test_case_manager_json_no_module [OF _ _ parsed nonempty no_module])
       (use few answer tables in simp_all)
  show ?thesis
    using gate explanation tables
    by (simp add: validate_or_generate_test_cases_json_def try_block_json_def act_defs llm_invoke_def manager Let_def
          del: str_of_error.simps) (simp add: tables)
qed

text \<open>
  C10, as amended. In the notebook variant, when the gate has accepted the retrieved
  defect, the explanation has been generated, the stored rows of the module of the defect
  have no missing cell, fewer than four of them are valid, and the answer of the generator
  parses to a non-empty array of cases none of which has the key \<open>Module\<close>:
  \<open>save_new_test_cases\<close> raises the \<open>KeyError\<close> for that key, the node returns the
  response \<open>Error processing request: 'Module'\<close> after the two calls of the language
  model, the table and the file are as they were, and the scorer gives this response 1.
\<close>

theorem json_cases_without_module_are_an_error:
  assumes gate: "is_similar cosine_similarity env input doc (6 / 10) s = (Inr True, s1)"
    and explanation: "llm env (calls s1) (Explanation_Prompt input (metadata_solution doc)) = Inr content"
    and of_module: "metadata_module doc = Str module_name"
    and no_missing: "list_all complete (filter (\<lambda>r. Module r = Str module_name) (test_cases_df s))"
    and few: "length (valid_rows module_name (test_cases_df s)) < 4"
    and answer: "llm env (calls s1 @ [Llm (Explanation_Prompt input (metadata_solution doc))])
                   (generation_prompt_json env input (metadata_solution doc) (strip content)
                      (map tc_dict (valid_rows module_name (test_cases_df s)))) = Inr generated"
    and parsed: "json_loads env (strip generated) = Inr new_cases"
    and nonempty: "new_cases \<noteq> []"
    and no_module: "\<forall>tc \<in> set new_cases. map_of tc ''Module'' = None"
  shows "(\<forall>st. save_new_test_cases new_cases st = (Inl (KeyError ''Module''), st)) \<and>
         (\<exists>s'. validate_or_generate_test_cases_json env input (doc # context) s =
                 (Inr [(''Error'', JStr (''Error processing request: '' @ CHR 0x27 # ''Module'' @ [CHR 0x27]))], s') \<and>
              test_cases_df s' = test_cases_df s \<and> test_cases_csv s' = test_cases_csv s \<and>
              calls s' = calls s1 @
                 [Llm (Explanation_Prompt input (metadata_solution doc)),
                  Llm (generation_prompt_json env input (metadata_solution doc) (strip content)
                         (map tc_dict (valid_rows module_name (test_cases_df s))))]) \<and>
         auto_evaluate_solution_json
           [(''Error'', JStr (''Error processing request: '' @ CHR 0x27 # ''Module'' @ [CHR 0x27]))] = 1"
proof (intro conjI allI)
  fix st
  from nonempty no_module obtain tc rest where "new_cases = tc # rest" and "map_of tc ''Module'' = None"
    by (cases new_cases) auto
  then show "save_new_test_cases new_cases st = (Inl (KeyError ''Module''), st)"
    by (simp add: save_new_test_cases_no_module)
next
  have stored: "get_csv_test_cases (metadata_module doc) (test_cases_df s) =
                map tc_dict (valid_rows module_name (test_cases_df s))"
    unfolding of_module by (rule get_csv_test_cases_complete [OF no_missing])
  from gate have tables: "test_cases_df s1 = test_cases_df s" "test_cases_csv s1 = test_cases_csv s"
    using is_similar_tables by blast+
  have "validate_or_generate_test_cases_json env input (doc # context) s =
           (Inr [(''Error'', JStr (''Error processing request: '' @ CHR 0x27 # ''Module'' @ [CHR 0x27]))],
            s1\<lparr>calls := calls s1 @
                   [Llm (Explanation_Prompt input (metadata_solution doc)),
                    Llm (generation_prompt_json env input (metadata_solution doc) (strip content)
                           (get_csv_test_cases (metadata_module doc) (test_cases_df s)))]\<rparr>)"
    by (rule node_json_no_module [OF gate explanation _ _ parsed nonempty no_module])
       (use few answer in \<open>simp_all add: stored\<close>)
  then show "\<exists>s'. validate_or_generate_test_cases_json env input (doc # context) s =
                 (Inr [(''Error'', JStr (''Error processing request: '' @ CHR 0x27 # ''Module'' @ [CHR 0x27]))], s') \<and>
              test_cases_df s' = test_cases_df s \<and> test_cases_csv s' = test_cases_csv s \<and>
              calls s' = calls s1 @
                 [Llm (Explanation_Prompt input (metadata_solution doc)),
                  Llm (generation_prompt_json env input (metadata_solution doc) (strip content)
                         (map tc_dict (valid_rows module_name (test_cases_df s))))]"
    by (simp add: stored tables)
next
  show "auto_evaluate_solution_json
           [(''Error'', JStr (''Error processing request: '' @ CHR 0x27 # ''Module'' @ [CHR 0x27]))] = 1"
    by (simp add: auto_evaluate_solution_json_def)
qed

lemma two_rows_valid:
  "valid_rows ''Storage'' (test_cases_df two_rows_state) =
     [example_row, example_row\<lparr>Test_Scenario := Str ''Reboot''\<rparr>]"
  by (simp add: two_rows_state_def two_rows_def valid_rows_def valid_case_def example_row_def
        strip_def isspace_def)

lemma two_rows_complete:
  "list_all complete (filter (\<lambda>r. Module r = Str ''Storage'') (test_cases_df two_rows_state))"
  by (simp add: two_rows_state_def two_rows_def complete_def example_row_def)

theorem json_cases_without_module_are_an_error_witness:
  "list_all complete (filter (\<lambda>r. Module r = Str ''Storage'') (test_cases_df two_rows_state)) \<and>
   length (valid_rows ''Storage'' (test_cases_df two_rows_state)) = 2 \<and>
   json_loads example_services (strip example_answer_json) =
     Inr [[(''Test_Scenario'', Str ''Boot''), (''Test_Steps'', Str ''Power on''),
           (''Pre_Requisite'', Str ''New cable''), (''Expected_Result'', Str ''Login screen''),
           (''Pass_Fail_Criteria'', Str ''Boots'')]] \<and>
   save_new_test_cases
     [[(''Test_Scenario'', Str ''Boot''), (''Test_Steps'', Str ''Power on''),
       (''Pre_Requisite'', Str ''New cable''), (''Expected_Result'', Str ''Login screen''),
       (''Pass_Fail_Criteria'', Str ''Boots'')]] two_rows_state =
     (Inl (KeyError ''Module''), two_rows_state) \<and>
   (\<exists>s'. validate_or_generate_test_cases_json example_services ''Disk read error on boot''
            [example_document] two_rows_state =
            (Inr [(''Error'', JStr (''Error processing request: '' @ CHR 0x27 # ''Module'' @ [CHR 0x27]))], s') \<and>
          test_cases_df s' = two_rows \<and> test_cases_csv s' = two_rows \<and>
          calls s' =
            [Embed ''Disk read error on boot'', Embed ''Disk read error on boot'',
             Llm (Explanation_Prompt ''Disk read error on boot'' ''Replace SATA cable''),
             Llm (Additional_Prompt Json 2 ''Disk read error on boot'' ''Replace SATA cable''
                    ''The old cable was faulty.''
                    (example_json_dumps
                       [tc_dict example_row, tc_dict (example_row\<lparr>Test_Scenario := Str ''Reboot''\<rparr>)]))])"
proof -
  let ?env = example_services
  let ?s1 = "two_rows_state\<lparr>calls := calls two_rows_state @
               [Embed ''Disk read error on boot'', Embed ''Disk read error on boot'']\<rparr>"
  have of_module: "metadata_module example_document = Str ''Storage''"
    by (simp add: example_document_def)
  have few: "length (valid_rows ''Storage'' (test_cases_df two_rows_state)) < 4"
    by (simp add: two_rows_valid)
  have explanation: "llm ?env (calls ?s1)
       (Explanation_Prompt ''Disk read error on boot'' (metadata_solution example_document)) =
       Inr ''The old cable was faulty. ''"
    by (simp add: example_services_def)
  have answer: "llm ?env
       (calls ?s1 @ [Llm (Explanation_Prompt ''Disk read error on boot'' (metadata_solution example_document))])
       (generation_prompt_json ?env ''Disk read error on boot'' (metadata_solution example_document)
          (strip ''The old cable was faulty. '')
          (map tc_dict (valid_rows ''Storage'' (test_cases_df two_rows_state)))) =
       Inr example_answer_json"
    by (simp add: example_services_def generation_prompt_json_def two_rows_valid)
  have parsed: "json_loads ?env (strip example_answer_json) = Inr example_parsed_json"
    by (simp add: example_services_def example_answer_json_def strip_example_json_dumps
          example_json_loads_parsed)
  have nonempty: "example_parsed_json \<noteq> []"
    by (simp add: example_parsed_json_def)
  have no_module: "\<forall>tc \<in> set example_parsed_json. map_of tc ''Module'' = None"
    by (simp add: example_parsed_json_def)
  have prompt: "generation_prompt_json ?env ''Disk read error on boot'' (metadata_solution example_document)
          (strip ''The old cable was faulty. '')
          (map tc_dict (valid_rows ''Storage'' (test_cases_df two_rows_state))) =
        Additional_Prompt Json 2 ''Disk read error on boot'' ''Replace SATA cable''
          ''The old cable was faulty.''
          (example_json_dumps
             [tc_dict example_row, tc_dict (example_row\<lparr>Test_Scenario := Str ''Reboot''\<rparr>)])"
    by (simp add: generation_prompt_json_def two_rows_valid example_services_def
          example_document_def strip_def isspace_def)
  have tables: "test_cases_df two_rows_state = two_rows" "test_cases_csv two_rows_state = two_rows"
    "calls two_rows_state = []"
    by (simp_all add: two_rows_state_def)
  from json_cases_without_module_are_an_error
         [OF example_gate_accepts explanation of_module two_rows_complete few answer parsed
             nonempty no_module, of "[]"]
  have "save_new_test_cases example_parsed_json two_rows_state =
          (Inl (KeyError ''Module''), two_rows_state) \<and>
        (\<exists>s'. validate_or_generate_test_cases_json ?env ''Disk read error on boot''
            [example_document] two_rows_state =
            (Inr [(''Error'', JStr (''Error processing request: '' @ CHR 0x27 # ''Module'' @ [CHR 0x27]))], s') \<and>
          test_cases_df s' = two_rows \<and> test_cases_csv s' = two_rows \<and>
          calls s' =
            [Embed ''Disk read error on boot'', Embed ''Disk read error on boot'',
             Llm (Explanation_Prompt ''Disk read error on boot'' ''Replace SATA cable''),
             Llm (Additional_Prompt Json 2 ''Disk read error on boot'' ''Replace SATA cable''
                    ''The old cable was faulty.''
                    (example_json_dumps
                       [tc_dict example_row, tc_dict (example_row\<lparr>Test_Scenario := Str ''Reboot''\<rparr>)]))])"
    unfolding prompt unfolding tables by (simp add: example_document_def)
  with two_rows_complete parsed show ?thesis
    by (simp add: two_rows_valid example_parsed_json_def)
qed

text \<open>
  C10, the counterexample. The table is empty and the answer of the generator is the
  JSON text of one case that has the key \<open>Module\<close> beside the five keys that the prompt
  asks for: no \<open>KeyError\<close> is raised, the node returns the case in its report and the
  case is a row of the table and of the file afterwards.
\<close>

theorem notebook_keeps_generated_case_with_module:
  "length (valid_rows ''Storage'' (test_cases_df empty_state)) < 4 \<and>
   json_loads module_key_services (strip (example_json_dumps [example_case])) = Inr [example_case] \<and>
   map_of example_case ''Module'' = Some (Str ''Storage'') \<and>
   validate_or_generate_test_cases_json module_key_services ''Disk read error on boot''
     [example_document] empty_state =
     (Inr [(''Error'', JStr ''Disk read error on boot''), (''Solution'', JStr ''Replace SATA cable''),
           (''Explanation'', JStr ''The old cable was faulty.''),
           (''TestCases'', JCases [example_case])],
      \<lparr>test_cases_df = [example_row], test_cases_csv = [example_row],
       calls = [Embed ''Disk read error on boot'', Embed ''Disk read error on boot'',
                Llm (Explanation_Prompt ''Disk read error on boot'' ''Replace SATA cable''),
                Llm (Full_Prompt Json ''Disk read error on boot'' ''Replace SATA cable''
                       ''The old cable was faulty.'')]\<rparr>)"
proof -
  have gate: "\<And>s. is_similar cosine_similarity module_key_services ''Disk read error on boot''
       example_document (6 / 10) s =
     (Inr True, s\<lparr>calls := calls s @ [Embed ''Disk read error on boot'',
                                         Embed ''Disk read error on boot'']\<rparr>)"
    by (simp add: is_similar_def act_defs get_embedding_def module_key_services_def
          example_services_def example_embedding_def example_document_def cosine_similarity_def
          np_dot_def np_linalg_norm_def)
  have services:
    "\<And>history e s. llm module_key_services history (Explanation_Prompt e s) =
        Inr ''The old cable was faulty. ''"
    "\<And>history e s x. llm module_key_services history (Full_Prompt Json e s x) =
        Inr (example_json_dumps [example_case])"
    "json_loads module_key_services = example_json_loads"
    by (simp_all add: module_key_services_def example_services_def)
  have document: "metadata_solution example_document = ''Replace SATA cable''"
    "metadata_module example_document = Str ''Storage''"
    by (simp_all add: example_document_def)
  have explanation: "strip ''The old cable was faulty. '' = ''The old cable was faulty.''"
    by (simp add: strip_def isspace_def)
  have save: "\<And>s. test_cases_df s = [] \<Longrightarrow>
      save_new_test_cases [example_case] s =
        (Inr (), s\<lparr>test_cases_df := [example_row], test_cases_csv := [example_row]\<rparr>)"
    by (simp add: save_new_test_cases_def example_case_def example_row_def getitem_def
          res_bind_def)
  have manager: "\<And>s. test_cases_df s = [] \<Longrightarrow>
      test_case_manager_json module_key_services (Str ''Storage'') ''Disk read error on boot''
        ''Replace SATA cable'' ''The old cable was faulty.'' s =
      (Inr [example_case],
       s\<lparr>calls := calls s @ [Llm (Full_Prompt Json ''Disk read error on boot'' ''Replace SATA cable''
                                     ''The old cable was faulty.'')],
         test_cases_df := [example_row], test_cases_csv := [example_row]\<rparr>)"
    by (simp add: test_case_manager_json_def get_csv_test_cases_def act_defs llm_invoke_def
          loads_or_empty_def services strip_example_json_dumps example_json_loads_example_case
          save Let_def)
  have node: "validate_or_generate_test_cases_json module_key_services ''Disk read error on boot''
     [example_document] empty_state =
     (Inr [(''Error'', JStr ''Disk read error on boot''), (''Solution'', JStr ''Replace SATA cable''),
           (''Explanation'', JStr ''The old cable was faulty.''),
           (''TestCases'', JCases [example_case])],
      \<lparr>test_cases_df = [example_row], test_cases_csv = [example_row],
       calls = [Embed ''Disk read error on boot'', Embed ''Disk read error on boot'',
                Llm (Explanation_Prompt ''Disk read error on boot'' ''Replace SATA cable''),
                Llm (Full_Prompt Json ''Disk read error on boot'' ''Replace SATA cable''
                       ''The old cable was faulty.'')]\<rparr>)"
    using gate
    by (simp add: validate_or_generate_test_cases_json_def try_block_json_def act_defs
          llm_invoke_def services document explanation manager Let_def empty_state_def)
  show ?thesis
    unfolding node
    by (simp add: services strip_example_json_dumps example_json_loads_example_case)
       (simp add: empty_state_def valid_rows_def example_case_def)
qed
section \<open>The Test Case Manager\<close>

text \<open>
  When no cell of the rows of the module is missing and four or more of the rows are
  valid, the Test Case Manager of both variants returns the cases of exactly these rows
  and leaves the state as it was: no call is recorded, and the table and the file are
  unchanged.
\<close>

lemma enough_valid_rows_are_reused:
  assumes no_missing: "list_all complete (filter (\<lambda>r. Module r = Str module_name) (test_cases_df s))"
    and enough: "length (valid_rows module_name (test_cases_df s)) \<ge> 4"
  shows "test_case_manager env (Str module_name) error_message solution explanation s =
           (Inr (map tc_dict (valid_rows module_name (test_cases_df s))), s)"
    and "test_case_manager_json env (Str module_name) error_message solution explanation s =
           (Inr (map tc_dict (valid_rows module_name (test_cases_df s))), s)"
    and "map row_of_case (map tc_dict (valid_rows module_name (test_cases_df s))) =
           valid_rows module_name (test_cases_df s)"
proof -
  have stored: "get_csv_test_cases (Str module_name) (test_cases_df s) =
                map tc_dict (valid_rows module_name (test_cases_df s))"
    by (rule get_csv_test_cases_complete [OF no_missing])
  from enough have "valid_rows module_name (test_cases_df s) \<noteq> []" by auto
  with enough show "test_case_manager env (Str module_name) error_message solution explanation s =
           (Inr (map tc_dict (valid_rows module_name (test_cases_df s))), s)"
    and "test_case_manager_json env (Str module_name) error_message solution explanation s =
           (Inr (map tc_dict (valid_rows module_name (test_cases_df s))), s)"
    by (simp_all add: test_case_manager_def test_case_manager_json_def stored
          REQUIRED_TEST_CASE_COUNT_def act_return_def)
  show "map row_of_case (map tc_dict (valid_rows module_name (test_cases_df s))) =
           valid_rows module_name (test_cases_df s)"
    by (rule map_row_of_case_tc_dict)
qed

lemma reloaded_state_stored:
  "get_csv_test_cases (Str ''Storage'') (test_cases_df reloaded_state) =
     [example_stored (Str ''Boot'') (Str ''Power on''),
      example_stored (Str ''Reboot'') (Str ''Power on''),
      example_stored (Str ''Cold boot'') (Str ''Power on''),
      example_stored (Str ''No power'') NaN,
      example_stored (Str ''Warm boot'') (Str ''Power on'')]"
  by (simp add: reloaded_state_def reloaded_rows_def get_csv_test_cases_def example_row_def
        required_fields_present_def strip_def isspace_def tc_dict_def example_stored_def)

text \<open>
  C6. The table is the one read from a file in which the module \<open>Storage\<close> has four
  valid cases and a fifth case whose steps are blank. The Test Case Manager of both
  variants makes no call and leaves the table and the file as they were, but the set it
  returns is not the stored valid set: it has five cases, the one without steps among
  them, where the valid stored cases of the module are the other four.
\<close>

theorem stored_case_with_blank_steps_is_reused:
  "test_case_manager example_services (Str ''Storage'') ''Disk read error on boot''
     ''Replace SATA cable'' ''The old cable was faulty.'' reloaded_state =
     (Inr [example_stored (Str ''Boot'') (Str ''Power on''),
           example_stored (Str ''Reboot'') (Str ''Power on''),
           example_stored (Str ''Cold boot'') (Str ''Power on''),
           example_stored (Str ''No power'') NaN,
           example_stored (Str ''Warm boot'') (Str ''Power on'')], reloaded_state) \<and>
   test_case_manager_json example_services (Str ''Storage'') ''Disk read error on boot''
     ''Replace SATA cable'' ''The old cable was faulty.'' reloaded_state =
     (Inr [example_stored (Str ''Boot'') (Str ''Power on''),
           example_stored (Str ''Reboot'') (Str ''Power on''),
           example_stored (Str ''Cold boot'') (Str ''Power on''),
           example_stored (Str ''No power'') NaN,
           example_stored (Str ''Warm boot'') (Str ''Power on'')], reloaded_state) \<and>
   valid_rows ''Storage'' (test_cases_df reloaded_state) =
     [example_row, example_row\<lparr>Test_Scenario := Str ''Reboot''\<rparr>,
      example_row\<lparr>Test_Scenario := Str ''Cold boot''\<rparr>,
      example_row\<lparr>Test_Scenario := Str ''Warm boot''\<rparr>] \<and>
   getitem (example_stored (Str ''No power'') NaN) ''Test_Steps'' = Inr NaN"
proof -
  have "valid_rows ''Storage'' (test_cases_df reloaded_state) =
     [example_row, example_row\<lparr>Test_Scenario := Str ''Reboot''\<rparr>,
      example_row\<lparr>Test_Scenario := Str ''Cold boot''\<rparr>,
      example_row\<lparr>Test_Scenario := Str ''Warm boot''\<rparr>]"
    by (simp add: reloaded_state_def reloaded_rows_def valid_rows_def valid_case_def
          example_row_def strip_def isspace_def)
  moreover have "getitem (example_stored (Str ''No power'') NaN) ''Test_Steps'' = Inr NaN"
    by (simp add: getitem_def example_stored_def)
  ultimately show ?thesis
    by (simp add: test_case_manager_def test_case_manager_json_def reloaded_state_stored
          REQUIRED_TEST_CASE_COUNT_def act_return_def)
qed

lemma getitem_parse_test_case:
  "key \<in> set field_names \<Longrightarrow>
   getitem (parse_test_case tc_raw) key = Inr (dict_field (parse_test_case tc_raw) key)"
  by (auto simp: getitem_def dict_field_def parse_test_case_def field_names_def)

lemma collect_cases_generated:
  "collect_cases module_name blocks =
     Inr (map (generated_case module_name) (filter has_scenario blocks))"
proof (induction blocks)
  case Nil
  show ?case by simp
next
  case (Cons tc_raw blocks)
  have fields: "\<And>key. key \<in> set field_names \<Longrightarrow>
      getitem (parse_test_case tc_raw) key = Inr (dict_field (parse_test_case tc_raw) key)"
    by (rule getitem_parse_test_case)
  show ?case
    by (simp add: Cons.IH fields field_names_def res_bind_def generated_case_def has_scenario_def
          Let_def)
qed

lemma format_tc_tc_dict: "\<exists>lines. format_tc (tc_dict r) = Inr lines"
  by (simp add: format_tc_def tc_dict_def getitem_def res_bind_def)

lemma res_map_format_tc_stored:
  "res_map format_tc (map tc_dict rows) =
     Inr (map (\<lambda>tc. case format_tc tc of Inl e \<Rightarrow> [] | Inr lines \<Rightarrow> lines) (map tc_dict rows))"
proof (induction rows)
  case Nil
  show ?case by simp
next
  case (Cons r rows)
  obtain lines where "format_tc (tc_dict r) = Inr lines"
    using format_tc_tc_dict by blast
  with Cons.IH show ?case by (simp add: res_bind_def)
qed

lemma res_map_format_tc_get_csv:
  "res_map format_tc (get_csv_test_cases module_name df) =
     Inr (map (\<lambda>tc. case format_tc tc of Inl e \<Rightarrow> [] | Inr lines \<Rightarrow> lines)
            (get_csv_test_cases module_name df))"
  unfolding get_csv_test_cases_def by (rule res_map_format_tc_stored)

lemma has_table_keys_generated_case: "has_table_keys (generated_case module_name tc_raw)"
  by (simp add: has_table_keys_def generated_case_def Let_def)

lemma no_missing_cell_generated_case:
  "no_missing_cell (row_of_case (generated_case (Str module_name) tc_raw))"
  by (simp add: no_missing_cell_def complete_def row_of_case_def case_cell_def generated_case_def
        Let_def)

text \<open>
  C5, as amended. In the text variants, when no cell of the stored rows of the module is
  missing, \<open>n\<close> of these rows are valid with \<open>0 < n < 4\<close>, and the language model answers,
  the Test Case Manager makes exactly one call, with the prompt for \<open>4 - n\<close> additional
  cases that carries the text of the stored valid cases; it returns the cases of the
  valid stored rows followed by the cases built from the blocks of the answer whose
  parsed scenario is not empty, so many as there are such blocks; each of these new cases
  has a non-empty scenario and is a row of the table afterwards, the new rows are
  appended behind the old ones, and the file is rewritten when a row was appended.
\<close>

theorem missing_cases_are_generated:
  assumes no_missing: "list_all complete (filter (\<lambda>r. Module r = Str module_name) (test_cases_df s))"
    and stored: "stored = valid_rows module_name (test_cases_df s)"
    and some: "0 < length stored" and few: "length stored < 4"
    and answer: "llm env (calls s)
                   (Additional_Prompt Text (4 - int (length stored)) error_message solution
                      explanation (existing_str (map tc_dict stored))) = Inr content"
    and new: "new = generated_cases (Str module_name) (strip content)"
  shows "\<exists>cases s'. test_case_manager env (Str module_name) error_message solution explanation s =
                 (Inr cases, s') \<and>
              cases = map tc_dict stored @ new \<and>
              map row_of_case cases = stored @ map row_of_case new \<and>
              calls s' = calls s @
                 [Llm (Additional_Prompt Text (4 - int (length stored)) error_message solution
                         explanation (existing_str (map tc_dict stored)))] \<and>
              test_cases_df s' =
                 test_cases_df s @ filter (\<lambda>r. r \<notin> set (test_cases_df s)) (map row_of_case new) \<and>
              test_cases_csv s' =
                 (if filter (\<lambda>r. r \<notin> set (test_cases_df s)) (map row_of_case new) = []
                  then test_cases_csv s else test_cases_df s') \<and>
              set (map row_of_case new) \<subseteq> set (test_cases_df s') \<and>
              list_all (\<lambda>tc. getitem tc ''Test_Scenario'' \<noteq> Inr (Str [])) new \<and>
              length cases =
                 length stored + length (filter has_scenario (cases_raw (strip content)))"
proof -
  let ?p = "Additional_Prompt Text (4 - int (length stored)) error_message solution
              explanation (existing_str (map tc_dict stored))"
  let ?s1 = "s\<lparr>calls := calls s @ [Llm ?p]\<rparr>"
  let ?rows = "filter (\<lambda>r. r \<notin> set (test_cases_df s)) (map row_of_case new)"
  let ?s' = "if new \<noteq> [] \<and> ?rows \<noteq> []
             then ?s1\<lparr>test_cases_df := test_cases_df s @ ?rows, test_cases_csv := test_cases_df s @ ?rows\<rparr>
             else ?s1"
  have csv: "get_csv_test_cases (Str module_name) (test_cases_df s) = map tc_dict stored"
    unfolding stored by (rule get_csv_test_cases_complete [OF no_missing])
  have wf: "list_all has_table_keys new"
    by (simp add: new generated_cases_def list_all_iff has_table_keys_generated_case)
  have texts: "list_all no_missing_cell (map row_of_case new)"
    by (simp add: new generated_cases_def list_all_iff no_missing_cell_generated_case)
  have save: "save_new_test_cases new ?s1 =
      (Inr (), if ?rows \<noteq> []
               then ?s1\<lparr>test_cases_df := test_cases_df s @ ?rows, test_cases_csv := test_cases_df s @ ?rows\<rparr>
               else ?s1)"
    using save_new_test_cases_texts [OF wf texts, of ?s1] by simp
  have collect: "collect_cases (Str module_name) (cases_raw (strip content)) = Inr new"
    by (simp add: collect_cases_generated new generated_cases_def)
  have fmt: "res_map format_tc (map tc_dict stored) =
      Inr (map (\<lambda>tc. case format_tc tc of Inl e \<Rightarrow> [] | Inr lines \<Rightarrow> lines) (map tc_dict stored))"
    by (rule res_map_format_tc_stored)
  have run: "test_case_manager env (Str module_name) error_message solution explanation s =
               (Inr (map tc_dict stored @ new), ?s')"
    using some few answer
    by (simp add: test_case_manager_def csv REQUIRED_TEST_CASE_COUNT_def Let_def
          act_defs llm_invoke_def fmt existing_str_def [symmetric] collect save del: map_map)
  have scen: "list_all (\<lambda>tc. getitem tc ''Test_Scenario'' \<noteq> Inr (Str [])) new"
    by (auto simp: new generated_cases_def list_all_iff generated_case_def Let_def getitem_def
          has_scenario_def)
  have "map row_of_case (map tc_dict stored @ new) = stored @ map row_of_case new"
    by (simp add: map_row_of_case_tc_dict del: map_map)
  moreover have "calls ?s' = calls s @ [Llm ?p]" by simp
  moreover have "test_cases_df ?s' = test_cases_df s @ ?rows" by auto
  moreover have "test_cases_csv ?s' = (if ?rows = [] then test_cases_csv s else test_cases_df ?s')"
    by auto
  moreover have "set (map row_of_case new) \<subseteq> set (test_cases_df ?s')"
    by (auto simp: filter_empty_conv)
  moreover have "length (map tc_dict stored @ new) =
                 length stored + length (filter has_scenario (cases_raw (strip content)))"
    by (simp add: new generated_cases_def)
  ultimately show ?thesis using run scen by blast
qed

lemma example_answer_text_blocks:
  "cases_raw (strip example_answer_text) =
     [''Test_Scenario: Swap\<newline>Test_Steps: Unplug\<newline>Pre_Requisite: Spare\<newline>Expected_Result: Boots\<newline>Pass_Fail_Criteria: Pass'',
      ''Test_Steps: Plug\<newline>### END TEST CASE ###'']"
  by (simp add: cases_raw_def example_answer_text_def strip_def isspace_def delimiter_def newline_def)

lemma example_answer_text_cases:
  "generated_cases (Str ''Storage'') (strip example_answer_text) =
     [[(''Module'', Str ''Storage''), (''Test_Scenario'', Str ''Swap''), (''Test_Steps'', Str ''Unplug''),
       (''Pre_Requisite'', Str ''Spare''), (''Pass_Fail_Criteria'', Str ''Pass''),
       (''Expected_Result'', Str ''Boots'')]]"
  unfolding generated_cases_def example_answer_text_blocks
  by (simp add: generated_case_def has_scenario_def dict_field_def parse_test_case_def
        field_names_def match_at_def tail_matches_def lookahead_def lookahead_labels_def
        isspace_def strip_def newline_def)

lemma two_rows_dicts:
  "map tc_dict [example_row, example_row\<lparr>Test_Scenario := Str ''Reboot''\<rparr>] =
     [example_stored (Str ''Boot'') (Str ''Power on''),
      example_stored (Str ''Reboot'') (Str ''Power on'')]"
  by (simp add: tc_dict_def example_row_def example_stored_def)

theorem missing_cases_are_generated_witness:
  "list_all complete (filter (\<lambda>r. Module r = Str ''Storage'') (test_cases_df two_rows_state)) \<and>
   valid_rows ''Storage'' (test_cases_df two_rows_state) =
     [example_row, example_row\<lparr>Test_Scenario := Str ''Reboot''\<rparr>] \<and>
   (\<exists>s'. test_case_manager example_services (Str ''Storage'') ''Disk read error on boot''
            ''Replace SATA cable'' ''The old cable was faulty.'' two_rows_state =
            (Inr [example_stored (Str ''Boot'') (Str ''Power on''),
                  example_stored (Str ''Reboot'') (Str ''Power on''),
                  [(''Module'', Str ''Storage''), (''Test_Scenario'', Str ''Swap''),
                   (''Test_Steps'', Str ''Unplug''), (''Pre_Requisite'', Str ''Spare''),
                   (''Pass_Fail_Criteria'', Str ''Pass''), (''Expected_Result'', Str ''Boots'')]], s') \<and>
          calls s' =
            [Llm (Additional_Prompt Text 2 ''Disk read error on boot'' ''Replace SATA cable''
                    ''The old cable was faulty.''
                    (existing_str [example_stored (Str ''Boot'') (Str ''Power on''),
                                   example_stored (Str ''Reboot'') (Str ''Power on'')]))] \<and>
          test_cases_df s' =
            [example_row, example_row\<lparr>Test_Scenario := Str ''Reboot''\<rparr>,
             \<lparr>Module = Str ''Storage'', Test_Scenario = Str ''Swap'', Test_Steps = Str ''Unplug'',
              Pre_Requisite = Str ''Spare'', Pass_Fail_Criteria = Str ''Pass'',
              Expected_Result = Str ''Boots''\<rparr>] \<and>
          test_cases_csv s' = test_cases_df s')"
proof -
  let ?stored = "[example_row, example_row\<lparr>Test_Scenario := Str ''Reboot''\<rparr>]"
  let ?new = "[[(''Module'', Str ''Storage''), (''Test_Scenario'', Str ''Swap''),
                (''Test_Steps'', Str ''Unplug''), (''Pre_Requisite'', Str ''Spare''),
                (''Pass_Fail_Criteria'', Str ''Pass''), (''Expected_Result'', Str ''Boots'')]]"
  have stored: "?stored = valid_rows ''Storage'' (test_cases_df two_rows_state)"
    by (simp add: two_rows_valid)
  have some: "0 < length ?stored" and few: "length ?stored < 4"
    by simp_all
  have answer: "llm example_services (calls two_rows_state)
       (Additional_Prompt Text (4 - int (length ?stored)) ''Disk read error on boot''
          ''Replace SATA cable'' ''The old cable was faulty.'' (existing_str (map tc_dict ?stored))) =
       Inr example_answer_text"
    by (simp add: example_services_def)
  have new: "?new = generated_cases (Str ''Storage'') (strip example_answer_text)"
    by (simp add: example_answer_text_cases)
  have rows: "filter (\<lambda>r. r \<notin> set (test_cases_df two_rows_state)) (map row_of_case ?new) =
      [\<lparr>Module = Str ''Storage'', Test_Scenario = Str ''Swap'', Test_Steps = Str ''Unplug'',
        Pre_Requisite = Str ''Spare'', Pass_Fail_Criteria = Str ''Pass'',
        Expected_Result = Str ''Boots''\<rparr>]"
    by (simp add: two_rows_state_def two_rows_def row_of_case_def case_cell_def example_row_def)
  from missing_cases_are_generated [OF two_rows_complete stored some few answer new]
  have "\<exists>s'. test_case_manager example_services (Str ''Storage'') ''Disk read error on boot''
            ''Replace SATA cable'' ''The old cable was faulty.'' two_rows_state =
            (Inr [example_stored (Str ''Boot'') (Str ''Power on''),
                  example_stored (Str ''Reboot'') (Str ''Power on''),
                  [(''Module'', Str ''Storage''), (''Test_Scenario'', Str ''Swap''),
                   (''Test_Steps'', Str ''Unplug''), (''Pre_Requisite'', Str ''Spare''),
                   (''Pass_Fail_Criteria'', Str ''Pass''), (''Expected_Result'', Str ''Boots'')]], s') \<and>
          calls s' =
            [Llm (Additional_Prompt Text 2 ''Disk read error on boot'' ''Replace SATA cable''
                    ''The old cable was faulty.''
                    (existing_str [example_stored (Str ''Boot'') (Str ''Power on''),
                                   example_stored (Str ''Reboot'') (Str ''Power on'')]))] \<and>
          test_cases_df s' =
            [example_row, example_row\<lparr>Test_Scenario := Str ''Reboot''\<rparr>,
             \<lparr>Module = Str ''Storage'', Test_Scenario = Str ''Swap'', Test_Steps = Str ''Unplug'',
              Pre_Requisite = Str ''Spare'', Pass_Fail_Criteria = Str ''Pass'',
              Expected_Result = Str ''Boots''\<rparr>] \<and>
          test_cases_csv s' = test_cases_df s'"
    unfolding rows two_rows_dicts
    by simp (auto simp: two_rows_state_def two_rows_def)
  with two_rows_complete two_rows_valid show ?thesis
    by simp
qed

text \<open>
  C5, the counterexample. In the notebook variant the module has two stored cases and
  the answer is the JSON text of one case with an empty scenario: the case is not
  discarded, it is returned behind the stored ones and appended to the table.
\<close>

theorem notebook_keeps_case_without_scenario:
  "test_case_manager_json blank_scenario_services (Str ''Storage'') ''Disk read error on boot''
     ''Replace SATA cable'' ''The old cable was faulty.'' two_rows_state =
     (Inr [tc_dict example_row, tc_dict (example_row\<lparr>Test_Scenario := Str ''Reboot''\<rparr>),
           blank_scenario_case],
      \<lparr>test_cases_df =
         [example_row, example_row\<lparr>Test_Scenario := Str ''Reboot''\<rparr>,
          \<lparr>Module = Str ''Storage'', Test_Scenario = Str [], Test_Steps = Str ''Wait'',
           Pre_Requisite = Str ''None'', Pass_Fail_Criteria = Str ''Pass'',
           Expected_Result = Str ''Boots''\<rparr>],
       test_cases_csv =
         [example_row, example_row\<lparr>Test_Scenario := Str ''Reboot''\<rparr>,
          \<lparr>Module = Str ''Storage'', Test_Scenario = Str [], Test_Steps = Str ''Wait'',
           Pre_Requisite = Str ''None'', Pass_Fail_Criteria = Str ''Pass'',
           Expected_Result = Str ''Boots''\<rparr>],
       calls =
         [Llm (Additional_Prompt Json 2 ''Disk read error on boot'' ''Replace SATA cable''
                 ''The old cable was faulty.''
                 (json_dumps blank_scenario_services
                    [tc_dict example_row,
                     tc_dict (example_row\<lparr>Test_Scenario := Str ''Reboot''\<rparr>)]))]\<rparr>) \<and>
   getitem blank_scenario_case ''Test_Scenario'' = Inr (Str [])"
proof -
  have stored: "get_csv_test_cases (Str ''Storage'') (test_cases_df two_rows_state) =
     [tc_dict example_row, tc_dict (example_row\<lparr>Test_Scenario := Str ''Reboot''\<rparr>)]"
    by (simp add: get_csv_test_cases_complete [OF two_rows_complete] two_rows_valid)
  have wf: "list_all has_table_keys [blank_scenario_case]"
    by (simp add: has_table_keys_def blank_scenario_case_def)
  have texts: "list_all no_missing_cell (map row_of_case [blank_scenario_case])"
    by (simp add: no_missing_cell_def complete_def row_of_case_def case_cell_def
          blank_scenario_case_def)
  have rows: "filter (\<lambda>r. r \<notin> set (test_cases_df two_rows_state)) (map row_of_case [blank_scenario_case]) =
      [\<lparr>Module = Str ''Storage'', Test_Scenario = Str [], Test_Steps = Str ''Wait'',
        Pre_Requisite = Str ''None'', Pass_Fail_Criteria = Str ''Pass'',
        Expected_Result = Str ''Boots''\<rparr>]"
    by (simp add: two_rows_state_def two_rows_def row_of_case_def case_cell_def example_row_def
          blank_scenario_case_def)
  have save: "\<And>s. test_cases_df s = test_cases_df two_rows_state \<Longrightarrow>
      save_new_test_cases [blank_scenario_case] s =
      (Inr (), s\<lparr>test_cases_df := test_cases_df s @
                     [\<lparr>Module = Str ''Storage'', Test_Scenario = Str [], Test_Steps = Str ''Wait'',
                       Pre_Requisite = Str ''None'', Pass_Fail_Criteria = Str ''Pass'',
                       Expected_Result = Str ''Boots''\<rparr>],
                   test_cases_csv := test_cases_df s @
                     [\<lparr>Module = Str ''Storage'', Test_Scenario = Str [], Test_Steps = Str ''Wait'',
                       Pre_Requisite = Str ''None'', Pass_Fail_Criteria = Str ''Pass'',
                       Expected_Result = Str ''Boots''\<rparr>]\<rparr>)"
    using rows by (simp add: save_new_test_cases_texts [OF wf texts])
  have services:
    "\<And>history n e s x existing. llm blank_scenario_services history (Additional_Prompt Json n e s x existing) =
        Inr (example_json_dumps [blank_scenario_case])"
    "json_loads blank_scenario_services = example_json_loads"
    by (simp_all add: blank_scenario_services_def example_services_def)
  have run: "test_case_manager_json blank_scenario_services (Str ''Storage'') ''Disk read error on boot''
     ''Replace SATA cable'' ''The old cable was faulty.'' two_rows_state =
     (Inr [tc_dict example_row, tc_dict (example_row\<lparr>Test_Scenario := Str ''Reboot''\<rparr>),
           blank_scenario_case],
      two_rows_state\<lparr>calls :=
         [Llm (Additional_Prompt Json 2 ''Disk read error on boot'' ''Replace SATA cable''
                 ''The old cable was faulty.''
                 (json_dumps blank_scenario_services
                    [tc_dict example_row,
                     tc_dict (example_row\<lparr>Test_Scenario := Str ''Reboot''\<rparr>)]))],
         test_cases_df := test_cases_df two_rows_state @
                     [\<lparr>Module = Str ''Storage'', Test_Scenario = Str [], Test_Steps = Str ''Wait'',
                       Pre_Requisite = Str ''None'', Pass_Fail_Criteria = Str ''Pass'',
                       Expected_Result = Str ''Boots''\<rparr>],
         test_cases_csv := test_cases_df two_rows_state @
                     [\<lparr>Module = Str ''Storage'', Test_Scenario = Str [], Test_Steps = Str ''Wait'',
                       Pre_Requisite = Str ''None'', Pass_Fail_Criteria = Str ''Pass'',
                       Expected_Result = Str ''Boots''\<rparr>]\<rparr>)"
    by (simp add: test_case_manager_json_def stored REQUIRED_TEST_CASE_COUNT_def
          Let_def act_defs llm_invoke_def loads_or_empty_def save services
          strip_example_json_dumps example_json_loads_blank_scenario)
       (simp add: two_rows_state_def two_rows_def)
  show ?thesis
    unfolding run by (simp add: two_rows_state_def two_rows_def) (simp add: blank_scenario_case_def getitem_def)
qed
section \<open>What the actions record\<close>

lemma records_only_return: "records_only P (act_return x)"
  by (simp add: records_only_def act_return_def)

lemma records_only_lift: "records_only P (act_lift r)"
  by (simp add: records_only_def act_lift_def)

lemma records_only_bind:
  assumes m: "records_only P m" and f: "\<And>x. records_only P (f x)"
  shows "records_only P (act_bind m f)"
  unfolding records_only_def
proof
  fix s
  from m obtain ev1 where ev1: "calls (snd (m s)) = calls s @ ev1" "list_all P ev1"
    unfolding records_only_def by blast
  show "\<exists>events. calls (snd (act_bind m f s)) = calls s @ events \<and> list_all P events"
  proof (cases "m s")
    case (Pair r s1)
    show ?thesis
    proof (cases r)
      case (Inl e)
      with Pair ev1 show ?thesis by (auto simp: act_bind_def)
    next
      case (Inr x)
      from f [of x] obtain ev2 where ev2: "calls (snd (f x s1)) = calls s1 @ ev2" "list_all P ev2"
        unfolding records_only_def by blast
      with Pair Inr ev1 have "calls (snd (act_bind m f s)) = calls s @ (ev1 @ ev2) \<and> list_all P (ev1 @ ev2)"
        by (simp add: act_bind_def)
      then show ?thesis by blast
    qed
  qed
qed

lemma records_only_catch:
  assumes m: "records_only P m" and h: "\<And>e. records_only P (handler e)"
  shows "records_only P (act_catch m handler)"
  unfolding records_only_def
proof
  fix s
  from m obtain ev1 where ev1: "calls (snd (m s)) = calls s @ ev1" "list_all P ev1"
    unfolding records_only_def by blast
  show "\<exists>events. calls (snd (act_catch m handler s)) = calls s @ events \<and> list_all P events"
  proof (cases "m s")
    case (Pair r s1)
    show ?thesis
    proof (cases r)
      case (Inr x)
      with Pair ev1 show ?thesis by (auto simp: act_catch_def)
    next
      case (Inl e)
      from h [of e] obtain ev2 where ev2: "calls (snd (handler e s1)) = calls s1 @ ev2" "list_all P ev2"
        unfolding records_only_def by blast
      with Pair Inl ev1 have "calls (snd (act_catch m handler s)) = calls s @ (ev1 @ ev2) \<and> list_all P (ev1 @ ev2)"
        by (simp add: act_catch_def)
      then show ?thesis by blast
    qed
  qed
qed

lemma records_only_state:
  assumes "\<And>s. records_only P (f s)"
  shows "records_only P (\<lambda>s. f s s)"
  using assms unfolding records_only_def by blast

lemma records_only_llm_invoke: "P (Llm p) \<Longrightarrow> records_only P (llm_invoke env p)"
  by (simp add: records_only_def llm_invoke_def)

lemma records_only_get_embedding: "P (Embed text) \<Longrightarrow> records_only P (get_embedding env text)"
  by (simp add: records_only_def get_embedding_def)

lemma records_only_retriever_invoke: "P (Retrieve query) \<Longrightarrow> records_only P (retriever_invoke env query)"
  by (simp add: records_only_def retriever_invoke_def)

lemma records_only_save: "records_only P (save_new_test_cases new_cases)"
  by (auto simp: records_only_def save_new_test_cases_def split: sum.splits)

lemma records_only_is_similar:
  "records_only is_node_event (is_similar cosine env query doc threshold)"
  unfolding is_similar_def
  by (intro records_only_bind records_only_get_embedding records_only_return) simp_all

lemma records_only_test_case_manager:
  "records_only is_node_event (test_case_manager env module_name error_message solution explanation)"
  unfolding test_case_manager_def Let_def
  by (rule records_only_state)
     (auto intro!: records_only_bind records_only_return records_only_lift records_only_save
        records_only_llm_invoke)

lemma records_only_test_case_manager_json:
  "records_only is_node_event
     (test_case_manager_json env module_name error_message solution explanation)"
  unfolding test_case_manager_json_def Let_def
  by (rule records_only_state)
     (auto intro!: records_only_bind records_only_return records_only_lift records_only_save
        records_only_llm_invoke)

lemma records_only_node:
  "records_only is_node_event (validate_or_generate_test_cases cosine env input context)"
  unfolding validate_or_generate_test_cases_def try_block_def Let_def
  by (cases "context")
     (auto intro!: records_only_catch records_only_bind records_only_return records_only_lift
        records_only_llm_invoke records_only_is_similar records_only_test_case_manager)

lemma records_only_node_json:
  "records_only is_node_event (validate_or_generate_test_cases_json env input context)"
  unfolding validate_or_generate_test_cases_json_def try_block_json_def Let_def
  by (cases "context")
     (auto intro!: records_only_catch records_only_bind records_only_return records_only_lift
        records_only_llm_invoke records_only_is_similar records_only_test_case_manager_json)

section \<open>The retry loop\<close>

lemma get_solution_autonomously_single_shot:
  "get_solution_autonomously cosine env error_message = single_shot cosine env error_message"
proof
  fix s
  show "get_solution_autonomously cosine env error_message s = single_shot cosine env error_message s"
    by (simp add: get_solution_autonomously_def single_shot_def loop_body_def max_iterations_def
          act_defs Let_def split: prod.splits sum.splits)
qed

lemma get_solution_autonomously_json_single_shot:
  "get_solution_autonomously_json env error_message = single_shot_json env error_message"
proof
  fix s
  show "get_solution_autonomously_json env error_message s = single_shot_json env error_message s"
    by (simp add: get_solution_autonomously_json_def single_shot_json_def loop_body_json_def
          max_iterations_def act_defs Let_def split: prod.splits sum.splits)
qed

lemma generate_alternative_solution_calls:
  "\<exists>events. calls (snd (generate_alternative_solution env error_message s)) =
              calls s @ Llm (Alt_Prompt error_message) # events \<and>
            list_all (\<lambda>ev. \<not> is_retrieval ev \<and> \<not> is_alternative_request ev) events"
  by (cases "llm env (calls s) (Alt_Prompt error_message)")
     (auto simp: generate_alternative_solution_def act_defs llm_invoke_def Let_def
           split: sum.splits)

lemma generate_alternative_solution_json_calls:
  "\<exists>events. calls (snd (generate_alternative_solution_json env error_message s)) =
              calls s @ Llm (Alt_Prompt error_message) # events \<and>
            list_all (\<lambda>ev. \<not> is_retrieval ev \<and> \<not> is_alternative_request ev) events"
  by (cases "llm env (calls s) (Alt_Prompt error_message)")
     (auto simp: generate_alternative_solution_json_def act_defs llm_invoke_def Let_def
           split: sum.splits)

lemma node_event_counts:
  assumes "list_all is_node_event events"
  shows "filter is_retrieval events = [] \<and> filter is_alternative_request events = []"
proof -
  have "\<And>ev. is_node_event ev \<Longrightarrow> \<not> is_retrieval ev \<and> \<not> is_alternative_request ev"
    by (erule is_node_event.elims) simp_all
  with assms show ?thesis
    by (auto simp: list_all_iff filter_empty_conv)
qed

lemma other_event_counts:
  assumes "list_all (\<lambda>ev. \<not> is_retrieval ev \<and> \<not> is_alternative_request ev) events"
  shows "filter is_retrieval events = [] \<and> filter is_alternative_request events = []"
  using assms by (auto simp: list_all_iff filter_empty_conv)

lemma single_shot_counts_generic:
  fixes node :: "string \<Rightarrow> document list \<Rightarrow> 'r action"
    and alternative :: "'r action"
  assumes node: "\<And>docs. records_only is_node_event (node query docs)"
    and alternative: "\<And>s. \<exists>events. calls (snd (alternative s)) =
              calls s @ Llm (Alt_Prompt error_message) # events \<and>
            list_all (\<lambda>ev. \<not> is_retrieval ev \<and> \<not> is_alternative_request ev) events"
  shows "workflow_invocations
           (calls (snd (act_bind (act_bind (retriever_invoke env query) (node query))
                          (\<lambda>response. if low response then alternative else act_return response) s))) =
           workflow_invocations (calls s) + 1 \<and>
         alternative_generations
           (calls (snd (act_bind (act_bind (retriever_invoke env query) (node query))
                          (\<lambda>response. if low response then alternative else act_return response) s))) \<le>
           alternative_generations (calls s) + 1"
proof (cases "retriever env query")
  case (Inl e)
  then show ?thesis
    by (simp add: act_defs retriever_invoke_def workflow_invocations_def alternative_generations_def)
next
  case (Inr docs)
  let ?s1 = "s\<lparr>calls := calls s @ [Retrieve query]\<rparr>"
  obtain r s2 where run: "node query docs ?s1 = (r, s2)"
    by (cases "node query docs ?s1")
  from node [of docs] obtain ev where ev: "calls s2 = calls ?s1 @ ev" "list_all is_node_event ev"
    unfolding records_only_def using run by (metis snd_conv)
  note c1 = node_event_counts [OF ev(2)]
  show ?thesis
  proof (cases r)
    case (Inl e)
    with Inr run ev c1 show ?thesis
      by (simp add: act_defs retriever_invoke_def workflow_invocations_def alternative_generations_def)
  next
    case response: (Inr response)
    show ?thesis
    proof (cases "low response")
      case False
      with Inr response run ev c1 show ?thesis
        by (simp add: act_defs retriever_invoke_def workflow_invocations_def
              alternative_generations_def)
    next
      case True
      from alternative [of s2] obtain ev2 where ev2:
        "calls (snd (alternative s2)) = calls s2 @ Llm (Alt_Prompt error_message) # ev2"
        "list_all (\<lambda>ev. \<not> is_retrieval ev \<and> \<not> is_alternative_request ev) ev2"
        by blast
      note c2 = other_event_counts [OF ev2(2)]
      from True Inr response run ev c1 ev2(1) c2 show ?thesis
        by (simp add: act_defs retriever_invoke_def workflow_invocations_def
              alternative_generations_def split: prod.splits)
    qed
  qed
qed

lemma single_shot_counts:
  "workflow_invocations (calls (snd (single_shot cosine env error_message s))) =
     workflow_invocations (calls s) + 1 \<and>
   alternative_generations (calls (snd (single_shot cosine env error_message s))) \<le>
     alternative_generations (calls s) + 1"
  unfolding single_shot_def agent_invoke_def
  by (rule single_shot_counts_generic
        [where node = "validate_or_generate_test_cases cosine env"
           and low = "\<lambda>response. auto_evaluate_solution response < 3"
           and error_message = error_message])
     (simp_all add: records_only_node generate_alternative_solution_calls)

lemma single_shot_json_counts:
  "workflow_invocations (calls (snd (single_shot_json env error_message s))) =
     workflow_invocations (calls s) + 1 \<and>
   alternative_generations (calls (snd (single_shot_json env error_message s))) \<le>
     alternative_generations (calls s) + 1"
  unfolding single_shot_json_def agent_invoke_json_def
  by (rule single_shot_counts_generic
        [where node = "validate_or_generate_test_cases_json env"
           and low = "\<lambda>response. auto_evaluate_solution_json response < 3"
           and error_message = error_message])
     (simp_all add: records_only_node_json generate_alternative_solution_json_calls)

text \<open>
  C7. In both variants \<open>get_solution_autonomously\<close>, with its loop of up to three
  iterations, is the single-shot evaluation: the workflow is invoked, its response is
  scored, and the function returns the response or the generated alternative. Whatever
  the services do, one call of it adds exactly one invocation of the workflow and at
  most one request for an alternative solution to the record of calls.
\<close>

theorem get_solution_autonomously_returns_on_first_iteration:
  "get_solution_autonomously cosine env error_message = single_shot cosine env error_message \<and>
   get_solution_autonomously_json env error_message = single_shot_json env error_message \<and>
   workflow_invocations (calls (snd (get_solution_autonomously cosine env error_message s))) =
     workflow_invocations (calls s) + 1 \<and>
   alternative_generations (calls (snd (get_solution_autonomously cosine env error_message s))) \<le>
     alternative_generations (calls s) + 1 \<and>
   workflow_invocations (calls (snd (get_solution_autonomously_json env error_message s))) =
     workflow_invocations (calls s) + 1 \<and>
   alternative_generations (calls (snd (get_solution_autonomously_json env error_message s))) \<le>
     alternative_generations (calls s) + 1"
  using single_shot_counts [of cosine env error_message s]
    single_shot_json_counts [of env error_message s]
  by (simp add: get_solution_autonomously_single_shot get_solution_autonomously_json_single_shot)

section \<open>Queries without a match\<close>

lemma auto_evaluate_not_found:
  "auto_evaluate_solution not_found_message = 1 \<and> auto_evaluate_solution_json not_found_json = 1"
  by (simp add: auto_evaluate_solution_def auto_evaluate_solution_json_def not_found_message_def
        not_found_json_def)

lemma rejected_is_similar:
  assumes "gate_rejects cosine env query (doc # rest)"
  shows "is_similar cosine env query doc (6 / 10) s =
           (Inr False, s\<lparr>calls := calls s @ [Embed query, Embed (page_content doc)]\<rparr>)"
  using assms
  by (auto simp: gate_rejects_def is_similar_def act_defs get_embedding_def
           split: sum.splits option.splits)

lemma generation_calls_append:
  "generation_calls (history @ events) = generation_calls history @ generation_calls events"
  by (simp add: generation_calls_def)

lemma rejected_node:
  assumes "gate_rejects cosine env query context"
  shows "\<exists>s1. validate_or_generate_test_cases cosine env query context s = (Inr not_found_message, s1) \<and>
          generation_calls (calls s1) = generation_calls (calls s) \<and>
          workflow_invocations (calls s1) = workflow_invocations (calls s) \<and>
          test_cases_df s1 = test_cases_df s \<and> test_cases_csv s1 = test_cases_csv s"
proof (cases "context")
  case Nil
  then show ?thesis
    by (simp add: validate_or_generate_test_cases_def try_block_def act_defs)
next
  case (Cons doc rest)
  with assms have "gate_rejects cosine env query (doc # rest)"
    by simp
  then have "is_similar cosine env query doc (6 / 10) s =
           (Inr False, s\<lparr>calls := calls s @ [Embed query, Embed (page_content doc)]\<rparr>)"
    by (rule rejected_is_similar)
  with Cons show ?thesis
    by (simp add: validate_or_generate_test_cases_def try_block_def act_defs
          generation_calls_def workflow_invocations_def)
qed

lemma rejected_node_json:
  assumes "gate_rejects cosine_similarity env query context"
  shows "\<exists>s1. validate_or_generate_test_cases_json env query context s = (Inr not_found_json, s1) \<and>
          generation_calls (calls s1) = generation_calls (calls s) \<and>
          workflow_invocations (calls s1) = workflow_invocations (calls s) \<and>
          test_cases_df s1 = test_cases_df s \<and> test_cases_csv s1 = test_cases_csv s"
proof (cases "context")
  case Nil
  then show ?thesis
    by (simp add: validate_or_generate_test_cases_json_def try_block_json_def act_defs)
next
  case (Cons doc rest)
  with assms have "gate_rejects cosine_similarity env query (doc # rest)"
    by simp
  then have "is_similar cosine_similarity env query doc (6 / 10) s =
           (Inr False, s\<lparr>calls := calls s @ [Embed query, Embed (page_content doc)]\<rparr>)"
    by (rule rejected_is_similar)
  with Cons show ?thesis
    by (simp add: validate_or_generate_test_cases_json_def try_block_json_def act_defs
          generation_calls_def workflow_invocations_def)
qed

text \<open>
  C1, as amended. When the retriever returns no document, or the similarity of the query
  with the nearest document is below 0.6, the workflow returns the not-found response
  without a generation call and without a change of the table. \<open>get_solution\<close> scores
  this response 1 and replaces it: its result is the result of
  \<open>generate_alternative_solution\<close>, which begins with the request for an alternative
  solution. This holds in the text variants and in the notebook variant.
\<close>

theorem rejected_query_is_answered_by_the_alternative:
  assumes retrieved: "retriever env (strip error_message) = Inr context"
  shows "(gate_rejects cosine env (strip error_message) context \<longrightarrow>
           (\<exists>s1. agent_invoke cosine env (strip error_message) s = (Inr not_found_message, s1) \<and>
                 generation_calls (calls s1) = generation_calls (calls s) \<and>
                 test_cases_df s1 = test_cases_df s \<and> test_cases_csv s1 = test_cases_csv s \<and>
                 get_solution cosine env error_message s =
                   generate_alternative_solution env error_message s1 \<and>
                 (\<exists>events. calls (snd (get_solution cosine env error_message s)) =
                    calls s1 @ Llm (Alt_Prompt error_message) # events))) \<and>
         (gate_rejects cosine_similarity env (strip error_message) context \<longrightarrow>
           (\<exists>s1. agent_invoke_json env (strip error_message) s = (Inr not_found_json, s1) \<and>
                 generation_calls (calls s1) = generation_calls (calls s) \<and>
                 test_cases_df s1 = test_cases_df s \<and> test_cases_csv s1 = test_cases_csv s \<and>
                 get_solution_json env error_message s =
                   generate_alternative_solution_json env error_message s1 \<and>
                 (\<exists>events. calls (snd (get_solution_json env error_message s)) =
                    calls s1 @ Llm (Alt_Prompt error_message) # events)))"
proof (intro conjI impI)
  let ?s0 = "s\<lparr>calls := calls s @ [Retrieve (strip error_message)]\<rparr>"
  assume "gate_rejects cosine env (strip error_message) context"
  from rejected_node [OF this, of ?s0] obtain s1 where
    node: "validate_or_generate_test_cases cosine env (strip error_message) context ?s0 =
             (Inr not_found_message, s1)"
    and frame: "generation_calls (calls s1) = generation_calls (calls ?s0)"
      "test_cases_df s1 = test_cases_df ?s0" "test_cases_csv s1 = test_cases_csv ?s0"
    by blast
  have agent: "agent_invoke cosine env (strip error_message) s = (Inr not_found_message, s1)"
    using retrieved node by (simp add: agent_invoke_def act_defs retriever_invoke_def)
  have solution: "get_solution cosine env error_message s =
      generate_alternative_solution env error_message s1"
    using agent auto_evaluate_not_found
    by (simp add: get_solution_def get_solution_autonomously_single_shot single_shot_def act_defs)
  obtain events where "calls (snd (generate_alternative_solution env error_message s1)) =
      calls s1 @ Llm (Alt_Prompt error_message) # events"
    using generate_alternative_solution_calls by blast
  with agent frame solution
  show "\<exists>s1. agent_invoke cosine env (strip error_message) s = (Inr not_found_message, s1) \<and>
                 generation_calls (calls s1) = generation_calls (calls s) \<and>
                 test_cases_df s1 = test_cases_df s \<and> test_cases_csv s1 = test_cases_csv s \<and>
                 get_solution cosine env error_message s =
                   generate_alternative_solution env error_message s1 \<and>
                 (\<exists>events. calls (snd (get_solution cosine env error_message s)) =
                    calls s1 @ Llm (Alt_Prompt error_message) # events)"
    by (auto simp: generation_calls_def)
next
  let ?s0 = "s\<lparr>calls := calls s @ [Retrieve (strip error_message)]\<rparr>"
  assume "gate_rejects cosine_similarity env (strip error_message) context"
  from rejected_node_json [OF this, of ?s0] obtain s1 where
    node: "validate_or_generate_test_cases_json env (strip error_message) context ?s0 =
             (Inr not_found_json, s1)"
    and frame: "generation_calls (calls s1) = generation_calls (calls ?s0)"
      "test_cases_df s1 = test_cases_df ?s0" "test_cases_csv s1 = test_cases_csv ?s0"
    by blast
  have agent: "agent_invoke_json env (strip error_message) s = (Inr not_found_json, s1)"
    using retrieved node by (simp add: agent_invoke_json_def act_defs retriever_invoke_def)
  have solution: "get_solution_json env error_message s =
      generate_alternative_solution_json env error_message s1"
    using agent auto_evaluate_not_found
    by (simp add: get_solution_json_def get_solution_autonomously_json_single_shot
          single_shot_json_def act_defs)
  obtain events where "calls (snd (generate_alternative_solution_json env error_message s1)) =
      calls s1 @ Llm (Alt_Prompt error_message) # events"
    using generate_alternative_solution_json_calls by blast
  with agent frame solution
  show "\<exists>s1. agent_invoke_json env (strip error_message) s = (Inr not_found_json, s1) \<and>
                 generation_calls (calls s1) = generation_calls (calls s) \<and>
                 test_cases_df s1 = test_cases_df s \<and> test_cases_csv s1 = test_cases_csv s \<and>
                 get_solution_json env error_message s =
                   generate_alternative_solution_json env error_message s1 \<and>
                 (\<exists>events. calls (snd (get_solution_json env error_message s)) =
                    calls s1 @ Llm (Alt_Prompt error_message) # events)"
    by (auto simp: generation_calls_def)
qed

lemma example_query_rejected:
  "retriever example_services (strip ''BIOS not booting up'') = Inr [example_document] \<and>
   gate_rejects cosine_similarity example_services (strip ''BIOS not booting up'') [example_document]"
  by (simp add: example_services_def gate_rejects_def example_embedding_def example_document_def
        cosine_similarity_def np_dot_def np_linalg_norm_def strip_def isspace_def)

theorem rejected_query_is_answered_by_the_alternative_witness:
  "retriever example_services (strip ''BIOS not booting up'') = Inr [example_document] \<and>
   gate_rejects cosine_similarity example_services (strip ''BIOS not booting up'') [example_document] \<and>
   (\<exists>s1. agent_invoke cosine_similarity example_services (strip ''BIOS not booting up'') empty_state =
           (Inr not_found_message, s1) \<and>
         generation_calls (calls s1) = [] \<and>
         get_solution cosine_similarity example_services ''BIOS not booting up'' empty_state =
           generate_alternative_solution example_services ''BIOS not booting up'' s1) \<and>
   (\<exists>s1. agent_invoke_json example_services (strip ''BIOS not booting up'') empty_state =
           (Inr not_found_json, s1) \<and>
         generation_calls (calls s1) = [] \<and>
         get_solution_json example_services ''BIOS not booting up'' empty_state =
           generate_alternative_solution_json example_services ''BIOS not booting up'' s1)"
proof -
  note retrieved = example_query_rejected [THEN conjunct1]
  note rejected = example_query_rejected [THEN conjunct2]
  have none: "generation_calls (calls empty_state) = []"
    by (simp add: generation_calls_def empty_state_def)
  from rejected_query_is_answered_by_the_alternative
         [OF retrieved, of cosine_similarity empty_state] rejected
  have "(\<exists>s1. agent_invoke cosine_similarity example_services (strip ''BIOS not booting up'') empty_state =
           (Inr not_found_message, s1) \<and>
         generation_calls (calls s1) = [] \<and>
         get_solution cosine_similarity example_services ''BIOS not booting up'' empty_state =
           generate_alternative_solution example_services ''BIOS not booting up'' s1)"
    and "(\<exists>s1. agent_invoke_json example_services (strip ''BIOS not booting up'') empty_state =
           (Inr not_found_json, s1) \<and>
         generation_calls (calls s1) = [] \<and>
         get_solution_json example_services ''BIOS not booting up'' empty_state =
           generate_alternative_solution_json example_services ''BIOS not booting up'' s1)"
    unfolding none by blast+
  with retrieved rejected show ?thesis by blast
qed

lemma example_query_similarity:
  "is_similar cosine_similarity example_services ''BIOS not booting up'' example_document (6 / 10) s =
     (Inr False, s\<lparr>calls := calls s @ [Embed ''BIOS not booting up'',
                                          Embed ''Disk read error on boot'']\<rparr>)"
  by (simp add: is_similar_def act_defs get_embedding_def example_services_def
        example_embedding_def example_document_def cosine_similarity_def np_dot_def
        np_linalg_norm_def)

text \<open>
  C1, the counterexample. The similarity of the query \<open>BIOS not booting up\<close> with the
  catalogued defect is 0, below the threshold, and \<open>get_solution\<close> does not return the
  not-found response: in both variants it makes two generation calls and returns the
  generated alternative.
\<close>

theorem rejected_query_gets_generated_answer:
  "gate_rejects cosine_similarity example_services ''BIOS not booting up'' [example_document] \<and>
   fst (get_solution cosine_similarity example_services ''BIOS not booting up'' empty_state) =
     Inr (''**Alternative Solution (Generated):**'' @ newline # ''Reseat the drive.'' @
          [newline, newline] @ ''**Test Cases for Alternative Solution:**'' @ newline #
          strip example_answer_text) \<and>
   fst (get_solution cosine_similarity example_services ''BIOS not booting up'' empty_state) \<noteq>
     Inr not_found_message \<and>
   generation_calls
     (calls (snd (get_solution cosine_similarity example_services ''BIOS not booting up'' empty_state))) =
     [Llm (Alt_Prompt ''BIOS not booting up''),
      Llm (Test_Case_Prompt Text ''BIOS not booting up'' ''Reseat the drive.'')] \<and>
   fst (get_solution_json example_services ''BIOS not booting up'' empty_state) =
     Inr [(''AlternativeSolution'', JStr ''Reseat the drive.''),
          (''TestCases'', JCases example_parsed_json)] \<and>
   fst (get_solution_json example_services ''BIOS not booting up'' empty_state) \<noteq>
     Inr not_found_json \<and>
   generation_calls
     (calls (snd (get_solution_json example_services ''BIOS not booting up'' empty_state))) =
     [Llm (Alt_Prompt ''BIOS not booting up''),
      Llm (Test_Case_Prompt Json ''BIOS not booting up'' ''Reseat the drive.'')]"
proof -
  have query: "strip ''BIOS not booting up'' = ''BIOS not booting up''"
    and answer: "strip ''Reseat the drive.'' = ''Reseat the drive.''"
    by (simp_all add: strip_def isspace_def)
  have parsed: "strip example_answer_json = example_answer_json"
    by (simp add: example_answer_json_def strip_example_json_dumps)
  have services: "retriever example_services ''BIOS not booting up'' = Inr [example_document]"
    "\<And>history. llm example_services history (Alt_Prompt ''BIOS not booting up'') =
       Inr ''Reseat the drive.''"
    "\<And>history. llm example_services history
       (Test_Case_Prompt Text ''BIOS not booting up'' ''Reseat the drive.'') = Inr example_answer_text"
    "\<And>history. llm example_services history
       (Test_Case_Prompt Json ''BIOS not booting up'' ''Reseat the drive.'') = Inr example_answer_json"
    "json_loads example_services example_answer_json = Inr example_parsed_json"
    by (simp_all add: example_services_def example_answer_json_def example_json_loads_parsed)
  have text_run: "get_solution cosine_similarity example_services ''BIOS not booting up'' empty_state =
     (Inr (''**Alternative Solution (Generated):**'' @ newline # ''Reseat the drive.'' @
          [newline, newline] @ ''**Test Cases for Alternative Solution:**'' @ newline #
          strip example_answer_text),
      empty_state\<lparr>calls := [Retrieve ''BIOS not booting up'', Embed ''BIOS not booting up'',
        Embed ''Disk read error on boot'', Llm (Alt_Prompt ''BIOS not booting up''),
        Llm (Test_Case_Prompt Text ''BIOS not booting up'' ''Reseat the drive.'')]\<rparr>)"
    using auto_evaluate_not_found example_query_similarity
    by (simp add: get_solution_def get_solution_autonomously_single_shot single_shot_def
          agent_invoke_def validate_or_generate_test_cases_def try_block_def act_defs
          retriever_invoke_def llm_invoke_def generate_alternative_solution_def Let_def query answer
          services empty_state_def)
  have json_run: "get_solution_json example_services ''BIOS not booting up'' empty_state =
     (Inr [(''AlternativeSolution'', JStr ''Reseat the drive.''),
          (''TestCases'', JCases example_parsed_json)],
      empty_state\<lparr>calls := [Retrieve ''BIOS not booting up'', Embed ''BIOS not booting up'',
        Embed ''Disk read error on boot'', Llm (Alt_Prompt ''BIOS not booting up''),
        Llm (Test_Case_Prompt Json ''BIOS not booting up'' ''Reseat the drive.'')]\<rparr>)"
    using auto_evaluate_not_found example_query_similarity
    by (simp add: get_solution_json_def get_solution_autonomously_json_single_shot
          single_shot_json_def agent_invoke_json_def validate_or_generate_test_cases_json_def
          try_block_json_def act_defs retriever_invoke_def llm_invoke_def
          generate_alternative_solution_json_def Let_def query answer parsed loads_or_empty_def
          services empty_state_def)
  have rejected: "gate_rejects cosine_similarity example_services ''BIOS not booting up'' [example_document]"
    using example_query_rejected by (simp add: query)
  show ?thesis
    unfolding text_run json_run
    using rejected by (simp add: not_found_message_def not_found_json_def generation_calls_def)
qed

section \<open>Exceptions\<close>

lemma node_returns:
  "\<exists>response s'. validate_or_generate_test_cases cosine env input context s = (Inr response, s')"
  by (cases "try_block cosine env input context s"; cases "fst (try_block cosine env input context s)")
     (auto simp: validate_or_generate_test_cases_def act_defs)

lemma node_json_returns:
  "\<exists>response s'. validate_or_generate_test_cases_json env input context s = (Inr response, s')"
  by (cases "try_block_json env input context s"; cases "fst (try_block_json env input context s)")
     (auto simp: validate_or_generate_test_cases_json_def act_defs)

lemma generate_alternative_solution_returns:
  assumes "\<forall>history p. is_alternative_prompt p \<longrightarrow> (\<exists>answer. llm env history p = Inr answer)"
  shows "\<exists>result s'. generate_alternative_solution env error_message s = (Inr result, s')"
proof -
  from assms obtain a1 where a1: "llm env (calls s) (Alt_Prompt error_message) = Inr a1"
    by (metis is_alternative_prompt.simps(1))
  from assms obtain a2 where "llm env (calls s @ [Llm (Alt_Prompt error_message)])
      (Test_Case_Prompt Text error_message (strip a1)) = Inr a2"
    by (metis is_alternative_prompt.simps(2))
  with a1 show ?thesis
    by (simp add: generate_alternative_solution_def act_defs llm_invoke_def Let_def)
qed

lemma generate_alternative_solution_json_returns:
  assumes "\<forall>history p. is_alternative_prompt p \<longrightarrow> (\<exists>answer. llm env history p = Inr answer)"
  shows "\<exists>result s'. generate_alternative_solution_json env error_message s = (Inr result, s')"
proof -
  from assms obtain a1 where a1: "llm env (calls s) (Alt_Prompt error_message) = Inr a1"
    by (metis is_alternative_prompt.simps(1))
  from assms obtain a2 where "llm env (calls s @ [Llm (Alt_Prompt error_message)])
      (Test_Case_Prompt Json error_message (strip a1)) = Inr a2"
    by (metis is_alternative_prompt.simps(2))
  with a1 show ?thesis
    by (simp add: generate_alternative_solution_json_def act_defs llm_invoke_def Let_def)
qed

lemma get_solution_retriever_raises:
  assumes "retriever env (strip error_message) = Inl e"
  shows "get_solution cosine env error_message s =
           (Inl e, s\<lparr>calls := calls s @ [Retrieve (strip error_message)]\<rparr>)"
    and "get_solution_json env error_message s =
           (Inl e, s\<lparr>calls := calls s @ [Retrieve (strip error_message)]\<rparr>)"
  using assms
  by (simp_all add: get_solution_def get_solution_autonomously_single_shot single_shot_def
        agent_invoke_def get_solution_json_def get_solution_autonomously_json_single_shot
        single_shot_json_def agent_invoke_json_def act_defs retriever_invoke_def)

lemma get_solution_alternative_raises:
  assumes "agent_invoke cosine env (strip error_message) s = (Inr response, s1)"
    and "auto_evaluate_solution response < 3"
    and "generate_alternative_solution env error_message s1 = (Inl e, s2)"
  shows "get_solution cosine env error_message s = (Inl e, s2)"
  using assms
  by (simp add: get_solution_def get_solution_autonomously_single_shot single_shot_def act_defs)

lemma get_solution_json_alternative_raises:
  assumes "agent_invoke_json env (strip error_message) s = (Inr response, s1)"
    and "auto_evaluate_solution_json response < 3"
    and "generate_alternative_solution_json env error_message s1 = (Inl e, s2)"
  shows "get_solution_json env error_message s = (Inl e, s2)"
  using assms
  by (simp add: get_solution_json_def get_solution_autonomously_json_single_shot
        single_shot_json_def act_defs)

lemma generate_alternative_solution_raises_first:
  assumes "llm env (calls s) (Alt_Prompt error_message) = Inl e"
  shows "generate_alternative_solution env error_message s =
           (Inl e, s\<lparr>calls := calls s @ [Llm (Alt_Prompt error_message)]\<rparr>)"
    and "generate_alternative_solution_json env error_message s =
           (Inl e, s\<lparr>calls := calls s @ [Llm (Alt_Prompt error_message)]\<rparr>)"
  using assms
  by (simp_all add: generate_alternative_solution_def generate_alternative_solution_json_def
        act_defs llm_invoke_def)

lemma generate_alternative_solution_raises_second:
  assumes "llm env (calls s) (Alt_Prompt error_message) = Inr answer"
    and "llm env (calls s @ [Llm (Alt_Prompt error_message)])
           (Test_Case_Prompt Text error_message (strip answer)) = Inl e"
  shows "generate_alternative_solution env error_message s =
           (Inl e, s\<lparr>calls := calls s @ [Llm (Alt_Prompt error_message),
                                          Llm (Test_Case_Prompt Text error_message (strip answer))]\<rparr>)"
  using assms
  by (simp add: generate_alternative_solution_def act_defs llm_invoke_def Let_def)

lemma generate_alternative_solution_json_raises_second:
  assumes "llm env (calls s) (Alt_Prompt error_message) = Inr answer"
    and "llm env (calls s @ [Llm (Alt_Prompt error_message)])
           (Test_Case_Prompt Json error_message (strip answer)) = Inl e"
  shows "generate_alternative_solution_json env error_message s =
           (Inl e, s\<lparr>calls := calls s @ [Llm (Alt_Prompt error_message),
                                          Llm (Test_Case_Prompt Json error_message (strip answer))]\<rparr>)"
  using assms
  by (simp add: generate_alternative_solution_json_def act_defs llm_invoke_def Let_def)

lemma get_solution_returns:
  assumes docs: "retriever env (strip error_message) = Inr docs"
    and answers: "\<forall>history p. is_alternative_prompt p \<longrightarrow> (\<exists>answer. llm env history p = Inr answer)"
  shows "\<exists>result s'. get_solution cosine env error_message s = (Inr result, s')"
    and "\<exists>result s'. get_solution_json env error_message s = (Inr result, s')"
proof -
  let ?s0 = "s\<lparr>calls := calls s @ [Retrieve (strip error_message)]\<rparr>"
  obtain response s1 where
    node: "validate_or_generate_test_cases cosine env (strip error_message) docs ?s0 = (Inr response, s1)"
    using node_returns by blast
  obtain alt s2 where alt: "generate_alternative_solution env error_message s1 = (Inr alt, s2)"
    using generate_alternative_solution_returns answers by blast
  from docs node alt
  show "\<exists>result s'. get_solution cosine env error_message s = (Inr result, s')"
    by (simp add: get_solution_def get_solution_autonomously_single_shot single_shot_def
          agent_invoke_def act_defs retriever_invoke_def)
  obtain response' s1' where
    node': "validate_or_generate_test_cases_json env (strip error_message) docs ?s0 = (Inr response', s1')"
    using node_json_returns by blast
  obtain alt' s2' where alt': "generate_alternative_solution_json env error_message s1' = (Inr alt', s2')"
    using generate_alternative_solution_json_returns answers by blast
  from docs node' alt'
  show "\<exists>result s'. get_solution_json env error_message s = (Inr result, s')"
    by (simp add: get_solution_json_def get_solution_autonomously_json_single_shot
          single_shot_json_def agent_invoke_json_def act_defs retriever_invoke_def)
qed

text \<open>
  C8, as amended. The node \<open>validate_or_generate_test_cases\<close> never raises: in both
  variants it returns a response in every state and for every input, the not-found
  response when the gate rejects, and for an exception that its body raises the response
  \<open>Error processing request:\<close> with the text of the exception. \<open>get_solution\<close> returns a
  result when the retriever returns and the language model answers the two prompts of
  \<open>generate_alternative_solution\<close>. Outside the node nothing catches an exception: one
  that the retriever raises leaves \<open>get_solution\<close>, and so does one that
  \<open>generate_alternative_solution\<close> raises when the response of the workflow is scored
  below 3, which it does when the language model raises at the first or at the second of
  its prompts.
\<close>

theorem node_converts_exceptions:
  "(\<exists>response s'. validate_or_generate_test_cases cosine env input context s = (Inr response, s')) \<and>
   (\<exists>response s'. validate_or_generate_test_cases_json env input context s = (Inr response, s')) \<and>
   (gate_rejects cosine env input context \<longrightarrow>
      (\<exists>s'. validate_or_generate_test_cases cosine env input context s =
              (Inr not_found_message, s'))) \<and>
   (gate_rejects cosine_similarity env input context \<longrightarrow>
      (\<exists>s'. validate_or_generate_test_cases_json env input context s = (Inr not_found_json, s'))) \<and>
   (\<forall>e s'. try_block cosine env input context s = (Inl e, s') \<longrightarrow>
      validate_or_generate_test_cases cosine env input context s =
        (Inr (''Error processing request: '' @ str_of_error e), s')) \<and>
   (\<forall>e s'. try_block_json env input context s = (Inl e, s') \<longrightarrow>
      validate_or_generate_test_cases_json env input context s =
        (Inr [(''Error'', JStr (''Error processing request: '' @ str_of_error e))], s')) \<and>
   ((\<exists>docs. retriever env (strip error_message) = Inr docs) \<and>
    (\<forall>history p. is_alternative_prompt p \<longrightarrow> (\<exists>answer. llm env history p = Inr answer)) \<longrightarrow>
      (\<exists>result s'. get_solution cosine env error_message s = (Inr result, s')) \<and>
      (\<exists>result s'. get_solution_json env error_message s = (Inr result, s'))) \<and>
   (\<forall>e. retriever env (strip error_message) = Inl e \<longrightarrow>
      get_solution cosine env error_message s =
        (Inl e, s\<lparr>calls := calls s @ [Retrieve (strip error_message)]\<rparr>) \<and>
      get_solution_json env error_message s =
        (Inl e, s\<lparr>calls := calls s @ [Retrieve (strip error_message)]\<rparr>)) \<and>
   (\<forall>response s1 e s2.
      agent_invoke cosine env (strip error_message) s = (Inr response, s1) \<and>
      auto_evaluate_solution response < 3 \<and>
      generate_alternative_solution env error_message s1 = (Inl e, s2) \<longrightarrow>
      get_solution cosine env error_message s = (Inl e, s2)) \<and>
   (\<forall>response s1 e s2.
      agent_invoke_json env (strip error_message) s = (Inr response, s1) \<and>
      auto_evaluate_solution_json response < 3 \<and>
      generate_alternative_solution_json env error_message s1 = (Inl e, s2) \<longrightarrow>
      get_solution_json env error_message s = (Inl e, s2)) \<and>
   (\<forall>e. llm env (calls s) (Alt_Prompt error_message) = Inl e \<longrightarrow>
      generate_alternative_solution env error_message s =
        (Inl e, s\<lparr>calls := calls s @ [Llm (Alt_Prompt error_message)]\<rparr>) \<and>
      generate_alternative_solution_json env error_message s =
        (Inl e, s\<lparr>calls := calls s @ [Llm (Alt_Prompt error_message)]\<rparr>)) \<and>
   (\<forall>answer e.
      llm env (calls s) (Alt_Prompt error_message) = Inr answer \<and>
      llm env (calls s @ [Llm (Alt_Prompt error_message)])
        (Test_Case_Prompt Text error_message (strip answer)) = Inl e \<longrightarrow>
      generate_alternative_solution env error_message s =
        (Inl e, s\<lparr>calls := calls s @ [Llm (Alt_Prompt error_message),
                                       Llm (Test_Case_Prompt Text error_message (strip answer))]\<rparr>)) \<and>
   (\<forall>answer e.
      llm env (calls s) (Alt_Prompt error_message) = Inr answer \<and>
      llm env (calls s @ [Llm (Alt_Prompt error_message)])
        (Test_Case_Prompt Json error_message (strip answer)) = Inl e \<longrightarrow>
      generate_alternative_solution_json env error_message s =
        (Inl e, s\<lparr>calls := calls s @ [Llm (Alt_Prompt error_message),
                                       Llm (Test_Case_Prompt Json error_message (strip answer))]\<rparr>))"
  (is "?returns \<and> ?returns_json \<and> ?rejected \<and> ?rejected_json \<and> ?caught \<and> ?caught_json \<and>
       ?answered \<and> ?retriever \<and> ?alternative \<and> ?alternative_json \<and> ?first \<and> ?second \<and>
       ?second_json")
proof -
  have "?returns" by (rule node_returns)
  moreover have "?returns_json" by (rule node_json_returns)
  moreover have "?rejected" using rejected_node by blast
  moreover have "?rejected_json" using rejected_node_json by blast
  moreover have "?caught"
    by (simp add: validate_or_generate_test_cases_def act_defs del: str_of_error.simps)
  moreover have "?caught_json"
    by (simp add: validate_or_generate_test_cases_json_def act_defs del: str_of_error.simps)
  moreover have "?answered" using get_solution_returns by blast
  moreover have "?retriever" using get_solution_retriever_raises by blast
  moreover have "?alternative" using get_solution_alternative_raises by blast
  moreover have "?alternative_json" using get_solution_json_alternative_raises by blast
  moreover have "?first" using generate_alternative_solution_raises_first by blast
  moreover have "?second" using generate_alternative_solution_raises_second by blast
  moreover have "?second_json" using generate_alternative_solution_json_raises_second by blast
  ultimately show ?thesis by (intro conjI)
qed

lemma example_llm_answers:
  "\<forall>history p. is_alternative_prompt p \<longrightarrow> (\<exists>answer. llm example_services history p = Inr answer)"
proof (intro allI impI)
  fix history p
  assume "is_alternative_prompt p"
  then show "\<exists>answer. llm example_services history p = Inr answer"
    by (cases "(example_answer_json, history, p)" rule: example_llm.cases)
       (simp_all add: example_services_def)
qed

lemma unreachable_llm_try_block:
  "try_block cosine_similarity unreachable_llm_services ''Disk read error on boot''
     [example_document] empty_state =
     (Inl (Failure ''Connection error.''),
      empty_state\<lparr>calls := [Embed ''Disk read error on boot'', Embed ''Disk read error on boot'',
                             Llm (Explanation_Prompt ''Disk read error on boot''
                                    ''Replace SATA cable'')]\<rparr>)"
  by (simp add: try_block_def is_similar_def act_defs get_embedding_def llm_invoke_def Let_def
        unreachable_llm_services_def example_services_def example_embedding_def example_document_def cosine_similarity_def np_dot_def
        np_linalg_norm_def empty_state_def)

lemma example_gate_rejects:
  "gate_rejects cosine_similarity example_services ''BIOS not booting up'' [example_document]"
  by (simp add: example_services_def gate_rejects_def example_embedding_def example_document_def
        cosine_similarity_def np_dot_def np_linalg_norm_def)

lemma unreachable_llm_agent_invoke:
  "agent_invoke cosine_similarity unreachable_llm_services (strip ''No display'') empty_state =
     (Inr not_found_message,
      empty_state\<lparr>calls := [Retrieve ''No display'', Embed ''No display'',
                             Embed ''Disk read error on boot'']\<rparr>)"
  by (simp add: agent_invoke_def validate_or_generate_test_cases_def try_block_def is_similar_def
        act_defs retriever_invoke_def get_embedding_def unreachable_llm_services_def
        example_services_def example_embedding_def example_document_def cosine_similarity_def
        np_dot_def np_linalg_norm_def empty_state_def strip_def isspace_def)

theorem node_converts_exceptions_witness:
  "try_block cosine_similarity unreachable_llm_services ''Disk read error on boot''
     [example_document] empty_state =
     (Inl (Failure ''Connection error.''),
      empty_state\<lparr>calls := [Embed ''Disk read error on boot'', Embed ''Disk read error on boot'',
                             Llm (Explanation_Prompt ''Disk read error on boot''
                                    ''Replace SATA cable'')]\<rparr>) \<and>
   validate_or_generate_test_cases cosine_similarity unreachable_llm_services
     ''Disk read error on boot'' [example_document] empty_state =
     (Inr ''Error processing request: Connection error.'',
      empty_state\<lparr>calls := [Embed ''Disk read error on boot'', Embed ''Disk read error on boot'',
                             Llm (Explanation_Prompt ''Disk read error on boot''
                                    ''Replace SATA cable'')]\<rparr>) \<and>
   gate_rejects cosine_similarity example_services ''BIOS not booting up'' [example_document] \<and>
   (\<exists>s'. validate_or_generate_test_cases cosine_similarity example_services ''BIOS not booting up''
            [example_document] empty_state = (Inr not_found_message, s')) \<and>
   (\<exists>s'. validate_or_generate_test_cases_json example_services ''BIOS not booting up''
            [example_document] empty_state = (Inr not_found_json, s')) \<and>
   (\<exists>docs. retriever example_services (strip ''BIOS not booting up'') = Inr docs) \<and>
   (\<exists>result s'. get_solution cosine_similarity example_services ''BIOS not booting up'' empty_state =
      (Inr result, s')) \<and>
   (\<exists>result s'. get_solution_json example_services ''BIOS not booting up'' empty_state =
      (Inr result, s')) \<and>
   retriever unreachable_retriever_services (strip ''BIOS not booting up'') =
     Inl (Failure ''Index not loaded.'') \<and>
   get_solution cosine_similarity unreachable_retriever_services ''BIOS not booting up'' empty_state =
     (Inl (Failure ''Index not loaded.''),
      empty_state\<lparr>calls := calls empty_state @ [Retrieve (strip ''BIOS not booting up'')]\<rparr>) \<and>
   get_solution_json unreachable_retriever_services ''BIOS not booting up'' empty_state =
     (Inl (Failure ''Index not loaded.''),
      empty_state\<lparr>calls := calls empty_state @ [Retrieve (strip ''BIOS not booting up'')]\<rparr>) \<and>
   auto_evaluate_solution not_found_message < 3 \<and>
   get_solution cosine_similarity unreachable_llm_services ''No display'' empty_state =
     (Inl (Failure ''Connection error.''),
      empty_state\<lparr>calls := [Retrieve ''No display'', Embed ''No display'',
                             Embed ''Disk read error on boot'', Llm (Alt_Prompt ''No display'')]\<rparr>) \<and>
   generate_alternative_solution rate_limited_services ''No display'' empty_state =
     (Inl (Failure ''Rate limit reached.''),
      empty_state\<lparr>calls := calls empty_state @
         [Llm (Alt_Prompt ''No display''),
          Llm (Test_Case_Prompt Text ''No display'' (strip ''Reseat the drive.''))]\<rparr>) \<and>
   generate_alternative_solution_json rate_limited_services ''No display'' empty_state =
     (Inl (Failure ''Rate limit reached.''),
      empty_state\<lparr>calls := calls empty_state @
         [Llm (Alt_Prompt ''No display''),
          Llm (Test_Case_Prompt Json ''No display'' (strip ''Reseat the drive.''))]\<rparr>)"
proof -
  have retrieved: "\<exists>docs. retriever example_services (strip ''BIOS not booting up'') = Inr docs"
    by (simp add: example_services_def)
  have unreachable: "retriever unreachable_retriever_services (strip ''BIOS not booting up'') =
      Inl (Failure ''Index not loaded.'')"
    by (simp add: unreachable_retriever_services_def)
  have low: "auto_evaluate_solution not_found_message < 3"
    using auto_evaluate_not_found by simp
  have no_answer: "\<And>s. llm unreachable_llm_services (calls s) (Alt_Prompt ''No display'') =
      Inl (Failure ''Connection error.'')"
    by (simp add: unreachable_llm_services_def)
  have first_answer: "llm rate_limited_services (calls empty_state) (Alt_Prompt ''No display'') =
      Inr ''Reseat the drive.''"
    by (simp add: rate_limited_services_def empty_state_def)
  have second_answer:
    "llm rate_limited_services (calls empty_state @ [Llm (Alt_Prompt ''No display'')])
       (Test_Case_Prompt Text ''No display'' (strip ''Reseat the drive.'')) =
     Inl (Failure ''Rate limit reached.'')"
    "llm rate_limited_services (calls empty_state @ [Llm (Alt_Prompt ''No display'')])
       (Test_Case_Prompt Json ''No display'' (strip ''Reseat the drive.'')) =
     Inl (Failure ''Rate limit reached.'')"
    by (simp_all add: rate_limited_services_def)
  from node_converts_exceptions
         [of cosine_similarity unreachable_llm_services "''Disk read error on boot''"
            "[example_document]" empty_state]
       unreachable_llm_try_block
  have caught: "validate_or_generate_test_cases cosine_similarity unreachable_llm_services
     ''Disk read error on boot'' [example_document] empty_state =
     (Inr ''Error processing request: Connection error.'',
      empty_state\<lparr>calls := [Embed ''Disk read error on boot'', Embed ''Disk read error on boot'',
                             Llm (Explanation_Prompt ''Disk read error on boot''
                                    ''Replace SATA cable'')]\<rparr>)"
    by simp
  from node_converts_exceptions
         [of cosine_similarity example_services "''BIOS not booting up''" "[example_document]"
            empty_state "''BIOS not booting up''"]
       retrieved example_llm_answers example_gate_rejects
  have answered: "(\<exists>s'. validate_or_generate_test_cases cosine_similarity example_services ''BIOS not booting up''
            [example_document] empty_state = (Inr not_found_message, s')) \<and>
   (\<exists>s'. validate_or_generate_test_cases_json example_services ''BIOS not booting up''
            [example_document] empty_state = (Inr not_found_json, s')) \<and>
   (\<exists>result s'. get_solution cosine_similarity example_services ''BIOS not booting up'' empty_state =
      (Inr result, s')) \<and>
   (\<exists>result s'. get_solution_json example_services ''BIOS not booting up'' empty_state =
      (Inr result, s'))"
    by blast
  from node_converts_exceptions
         [of cosine_similarity unreachable_retriever_services _ _ empty_state "''BIOS not booting up''"]
       unreachable
  have raised: "get_solution cosine_similarity unreachable_retriever_services ''BIOS not booting up'' empty_state =
     (Inl (Failure ''Index not loaded.''),
      empty_state\<lparr>calls := calls empty_state @ [Retrieve (strip ''BIOS not booting up'')]\<rparr>) \<and>
   get_solution_json unreachable_retriever_services ''BIOS not booting up'' empty_state =
     (Inl (Failure ''Index not loaded.''),
      empty_state\<lparr>calls := calls empty_state @ [Retrieve (strip ''BIOS not booting up'')]\<rparr>)"
    by blast
  let ?s1 = "empty_state\<lparr>calls := [Retrieve ''No display'', Embed ''No display'',
                             Embed ''Disk read error on boot'']\<rparr>"
  from node_converts_exceptions
         [of cosine_similarity unreachable_llm_services _ _ ?s1 "''No display''"]
       no_answer [of ?s1]
  have alternative: "generate_alternative_solution unreachable_llm_services ''No display'' ?s1 =
      (Inl (Failure ''Connection error.''), ?s1\<lparr>calls := calls ?s1 @ [Llm (Alt_Prompt ''No display'')]\<rparr>)"
    by blast
  from node_converts_exceptions
         [of cosine_similarity unreachable_llm_services _ _ empty_state "''No display''"]
       unreachable_llm_agent_invoke low alternative
  have propagated: "get_solution cosine_similarity unreachable_llm_services ''No display'' empty_state =
      (Inl (Failure ''Connection error.''), ?s1\<lparr>calls := calls ?s1 @ [Llm (Alt_Prompt ''No display'')]\<rparr>)"
    by blast
  from node_converts_exceptions
         [of cosine_similarity rate_limited_services _ _ empty_state "''No display''"]
       first_answer second_answer
  have limited: "generate_alternative_solution rate_limited_services ''No display'' empty_state =
     (Inl (Failure ''Rate limit reached.''),
      empty_state\<lparr>calls := calls empty_state @
         [Llm (Alt_Prompt ''No display''),
          Llm (Test_Case_Prompt Text ''No display'' (strip ''Reseat the drive.''))]\<rparr>) \<and>
   generate_alternative_solution_json rate_limited_services ''No display'' empty_state =
     (Inl (Failure ''Rate limit reached.''),
      empty_state\<lparr>calls := calls empty_state @
         [Llm (Alt_Prompt ''No display''),
          Llm (Test_Case_Prompt Json ''No display'' (strip ''Reseat the drive.''))]\<rparr>)"
    by (intro conjI) blast+
  from propagated
  have propagated': "get_solution cosine_similarity unreachable_llm_services ''No display'' empty_state =
     (Inl (Failure ''Connection error.''),
      empty_state\<lparr>calls := [Retrieve ''No display'', Embed ''No display'',
                             Embed ''Disk read error on boot'', Llm (Alt_Prompt ''No display'')]\<rparr>)"
    by simp
  from unreachable_llm_try_block caught example_gate_rejects answered retrieved unreachable raised
    low propagated' limited
  show ?thesis
    by (intro conjI) blast+
qed

text \<open>
  C8, the counterexample. The language model is unreachable and the query is not similar
  to the catalogued defect: the node returns the not-found response, \<open>get_solution\<close>
  asks for an alternative, and the exception of that call leaves \<open>get_solution\<close>, in
  both variants.
\<close>

theorem get_solution_raises_when_llm_is_unreachable:
  "get_solution cosine_similarity unreachable_llm_services ''BIOS not booting up'' empty_state =
     (Inl (Failure ''Connection error.''),
      empty_state\<lparr>calls := [Retrieve ''BIOS not booting up'', Embed ''BIOS not booting up'',
                             Embed ''Disk read error on boot'',
                             Llm (Alt_Prompt ''BIOS not booting up'')]\<rparr>) \<and>
   get_solution_json unreachable_llm_services ''BIOS not booting up'' empty_state =
     (Inl (Failure ''Connection error.''),
      empty_state\<lparr>calls := [Retrieve ''BIOS not booting up'', Embed ''BIOS not booting up'',
                             Embed ''Disk read error on boot'',
                             Llm (Alt_Prompt ''BIOS not booting up'')]\<rparr>)"
proof -
  have query: "strip ''BIOS not booting up'' = ''BIOS not booting up''"
    by (simp add: strip_def isspace_def)
  have services: "retriever unreachable_llm_services ''BIOS not booting up'' = Inr [example_document]"
    "\<And>history p. llm unreachable_llm_services history p = Inl (Failure ''Connection error.'')"
    by (simp_all add: unreachable_llm_services_def example_services_def)
  have gate: "\<And>s. is_similar cosine_similarity unreachable_llm_services ''BIOS not booting up''
       example_document (6 / 10) s =
     (Inr False, s\<lparr>calls := calls s @ [Embed ''BIOS not booting up'',
                                          Embed ''Disk read error on boot'']\<rparr>)"
    by (simp add: is_similar_def act_defs get_embedding_def unreachable_llm_services_def
          example_services_def example_embedding_def example_document_def cosine_similarity_def
          np_dot_def np_linalg_norm_def)
  show ?thesis
    using auto_evaluate_not_found gate
    by (simp add: get_solution_def get_solution_autonomously_single_shot single_shot_def
          agent_invoke_def validate_or_generate_test_cases_def try_block_def
          get_solution_json_def get_solution_autonomously_json_single_shot
          single_shot_json_def agent_invoke_json_def validate_or_generate_test_cases_json_def
          try_block_json_def act_defs retriever_invoke_def llm_invoke_def
          generate_alternative_solution_def generate_alternative_solution_json_def Let_def query
          services empty_state_def)
qed

section \<open>The self-evaluation\<close>

lemma str_contains_iff:
  "str_contains needle s = (\<exists>before after. s = before @ needle @ after)"
proof (induction s)
  case Nil
  show ?case by auto
next
  case (Cons c cs)
  have "(\<exists>before after. c # cs = before @ needle @ after) =
        (prefix needle (c # cs) \<or> (\<exists>before after. cs = before @ needle @ after))"
  proof
    assume "\<exists>before after. c # cs = before @ needle @ after"
    then obtain before after where split: "c # cs = before @ needle @ after"
      by blast
    show "prefix needle (c # cs) \<or> (\<exists>before after. cs = before @ needle @ after)"
    proof (cases before)
      case Nil
      with split show ?thesis by (auto simp: prefix_def)
    next
      case (Cons b before')
      with split have "cs = before' @ needle @ after" by simp
      then show ?thesis by blast
    qed
  next
    assume "prefix needle (c # cs) \<or> (\<exists>before after. cs = before @ needle @ after)"
    then show "\<exists>before after. c # cs = before @ needle @ after"
    proof
      assume "prefix needle (c # cs)"
      then obtain after where "c # cs = needle @ after" by (auto simp: prefix_def)
      then have "c # cs = [] @ needle @ after" by simp
      then show ?thesis by blast
    next
      assume "\<exists>before after. cs = before @ needle @ after"
      then obtain before after where "cs = before @ needle @ after" by blast
      then have "c # cs = (c # before) @ needle @ after" by simp
      then show ?thesis by blast
    qed
  qed
  with Cons.IH show ?case by simp
qed

text \<open>
  C4, as amended. In the text variants \<open>auto_evaluate_solution\<close> returns 5 exactly when
  the response contains the delimiter \<open>### END TEST CASE ###\<close>, 1 when it does not and
  contains \<open>**Error**:\<close>, as the not-found response does, and 3 otherwise. In the
  notebook variant it returns 5 exactly when the response has a non-empty list under
  \<open>TestCases\<close> and 1 in every other case, for the not-found response as well; it never
  returns 3.
\<close>

theorem auto_evaluate_solution_scores:
  "auto_evaluate_solution response =
     (if \<exists>before after. response = before @ ''### END TEST CASE ###'' @ after then 5
      else if \<exists>before after. response = before @ ''**Error**:'' @ after then 1
      else 3) \<and>
   auto_evaluate_solution not_found_message = 1 \<and>
   auto_evaluate_solution_json jresponse =
     (if \<exists>test_cases. map_of jresponse ''TestCases'' = Some (JCases test_cases) \<and> test_cases \<noteq> []
      then 5 else 1) \<and>
   auto_evaluate_solution_json not_found_json = 1 \<and>
   auto_evaluate_solution_json jresponse \<noteq> 3"
proof -
  have "auto_evaluate_solution response =
     (if \<exists>before after. response = before @ ''### END TEST CASE ###'' @ after then 5
      else if \<exists>before after. response = before @ ''**Error**:'' @ after then 1
      else 3)"
    unfolding auto_evaluate_solution_def str_contains_iff ..
  moreover have "auto_evaluate_solution_json jresponse =
     (if \<exists>test_cases. map_of jresponse ''TestCases'' = Some (JCases test_cases) \<and> test_cases \<noteq> []
      then 5 else 1)"
    by (auto simp: auto_evaluate_solution_json_def split: option.splits jvalue.splits)
  moreover have "auto_evaluate_solution_json jresponse \<noteq> 3"
    by (auto simp: auto_evaluate_solution_json_def split: option.splits jvalue.splits)
  ultimately show ?thesis
    using auto_evaluate_not_found by simp
qed

lemma four_rows_state_stored:
  "get_csv_test_cases (Str ''Storage'') (test_cases_df four_rows_state) =
     [tc_dict example_row, tc_dict (example_row\<lparr>Test_Scenario := Str ''Reboot''\<rparr>),
      tc_dict (example_row\<lparr>Test_Scenario := Str ''Cold boot''\<rparr>),
      tc_dict (example_row\<lparr>Test_Scenario := Str ''Warm boot''\<rparr>)]"
  by (simp add: four_rows_state_def four_rows_def get_csv_test_cases_def example_row_def
        required_fields_present_def strip_def isspace_def)

lemma example_report_is_response:
  "fst (agent_invoke cosine_similarity example_services ''Disk read error on boot'' four_rows_state) =
     Inr example_report"
proof -
  have gate: "is_similar cosine_similarity example_services ''Disk read error on boot''
      example_document (6 / 10) (four_rows_state\<lparr>calls := [Retrieve ''Disk read error on boot'']\<rparr>) =
      (Inr True, four_rows_state\<lparr>calls := [Retrieve ''Disk read error on boot'',
         Embed ''Disk read error on boot'', Embed ''Disk read error on boot'']\<rparr>)"
    by (simp add: is_similar_def act_defs get_embedding_def example_services_def
          example_embedding_def example_document_def cosine_similarity_def np_dot_def
          np_linalg_norm_def)
  have explanation: "strip ''The old cable was faulty. '' = ''The old cable was faulty.''"
    by (simp add: strip_def isspace_def)
  have manager: "\<And>s. test_cases_df s = test_cases_df four_rows_state \<Longrightarrow>
      test_case_manager example_services (Str ''Storage'') ''Disk read error on boot'' ''Replace SATA cable''
        ''The old cable was faulty.'' s =
      (Inr (get_csv_test_cases (Str ''Storage'') (test_cases_df four_rows_state)), s)"
    by (simp add: test_case_manager_def four_rows_state_stored REQUIRED_TEST_CASE_COUNT_def
          act_return_def)
  have formatted: "res_map format_tc (get_csv_test_cases (Str ''Storage'') (test_cases_df four_rows_state)) =
      Inr [example_formatted_case ''Boot'', example_formatted_case ''Reboot'',
           example_formatted_case ''Cold boot'', example_formatted_case ''Warm boot'']"
    by (simp add: four_rows_state_stored format_tc_def tc_dict_def getitem_def res_bind_def
          example_row_def example_formatted_case_def)
  have calls: "calls four_rows_state = []"
    by (simp add: four_rows_state_def four_rows_def)
  have services: "retriever example_services ''Disk read error on boot'' = Inr [example_document]"
    "\<And>history. llm example_services history
        (Explanation_Prompt ''Disk read error on boot'' ''Replace SATA cable'') =
      Inr ''The old cable was faulty. ''"
    by (simp_all add: example_services_def)
  have document: "metadata_solution example_document = ''Replace SATA cable''"
    "metadata_module example_document = Str ''Storage''"
    by (simp_all add: example_document_def)
  show ?thesis
    using gate
    by (simp add: agent_invoke_def validate_or_generate_test_cases_def try_block_def act_defs
          retriever_invoke_def llm_invoke_def Let_def calls services document explanation
          manager formatted response_template_def example_report_def)
qed

text \<open>
  C4, the counterexample. The report of the text pipeline with four completed test
  cases is scored 3, not 5: the formatted cases do not contain the delimiter. In the
  notebook variant the response of a caught exception, which is neither the not-found
  response nor a completed one, is scored 1, not 3.
\<close>

theorem completed_report_is_scored_three:
  "fst (agent_invoke cosine_similarity example_services ''Disk read error on boot'' four_rows_state) =
     Inr example_report \<and>
   auto_evaluate_solution example_report = 3 \<and>
   auto_evaluate_solution_json
     [(''Error'', JStr (''Error processing request: '' @ str_of_error (KeyError ''Module'')))] = 1"
proof -
  have "auto_evaluate_solution example_report = 3"
    by (simp add: auto_evaluate_solution_def example_report_def example_formatted_case_def
          newline_def)
  moreover have "auto_evaluate_solution_json
     [(''Error'', JStr (''Error processing request: '' @ str_of_error (KeyError ''Module'')))] = 1"
    by (simp add: auto_evaluate_solution_json_def)
  ultimately show ?thesis
    using example_report_is_response by simp
qed

end
